theory Spec2Isabelle
  imports Main "HOL-Library.Word"
begin

section \<open>The server role of a WebSocket endpoint (roles/server.hpp)\<close>

text \<open>
  The theory embeds the per-connection handshake logic of \<^verbatim>\<open>role::server::connection\<close>:
  the negotiation setters, \<^verbatim>\<open>handle_read_request\<close>, \<^verbatim>\<open>write_response\<close>,
  \<^verbatim>\<open>handle_write_response\<close> and \<^verbatim>\<open>log_open_result\<close>. The member functions mutate
  the connection object; here each one takes the connection and returns the new one.
  A C++ exception is the result \<open>Thrown\<close> (with the connection as it was when the
  exception left the function), and dereferencing a null shared pointer is the result
  \<open>Undefined\<close>.
\<close>

subsection \<open>Results of member functions\<close>

text \<open>The exceptions the role throws, catches or lets pass. An \<^verbatim>\<open>http::exception\<close>
  carries what the \<^verbatim>\<open>catch\<close> clause of line 244 reads from it: the log message
  (\<^verbatim>\<open>what()\<close>), \<^verbatim>\<open>m_error_code\<close>, \<^verbatim>\<open>m_error_msg\<close> and \<^verbatim>\<open>m_body\<close>; the role
  constructs it from a message and a code, the other two being empty.\<close>

datatype exn =
    Http_exception string nat string string
  | Uri_exception string
  | Invalid_argument string
  | Other_exception string

datatype 'a result = Normal 'a | Thrown exn 'a | Undefined

subsection \<open>Strings: what the standard library and Boost calls compute\<close>

text \<open>\<^verbatim>\<open>std::find\<close> on a vector: the position of the first element equal to the value,
  or the length of the vector (the end iterator) when there is none.\<close>

fun std_find :: "'a list \<Rightarrow> 'a \<Rightarrow> nat" where
  "std_find [] v = 0"
| "std_find (x # xs) v = (if x = v then 0 else Suc (std_find xs v))"

text \<open>\<^verbatim>\<open>std::string::find\<close> of a one-character string: the index of the first
  occurrence, \<open>None\<close> for \<^verbatim>\<open>npos\<close>.\<close>

fun string_find :: "string \<Rightarrow> char \<Rightarrow> nat option" where
  "string_find [] ch = None"
| "string_find (x # xs) ch =
     (if x = ch then Some 0
      else (case string_find xs ch of None \<Rightarrow> None | Some i \<Rightarrow> Some (Suc i)))"

text \<open>\<^verbatim>\<open>std::toupper\<close> in the classic locale, which \<^verbatim>\<open>boost::is_iequal\<close> applies to
  both characters before comparing them.\<close>

definition to_upper :: "char \<Rightarrow> char" where
  "to_upper ch =
     (case map_of (zip ''abcdefghijklmnopqrstuvwxyz'' ''ABCDEFGHIJKLMNOPQRSTUVWXYZ'') ch of
        None \<Rightarrow> ch
      | Some u \<Rightarrow> u)"

fun istarts_with :: "string \<Rightarrow> string \<Rightarrow> bool" where
  "istarts_with text [] = True"
| "istarts_with [] (p # ps) = False"
| "istarts_with (t # ts) (p # ps) = (to_upper t = to_upper p \<and> istarts_with ts ps)"

fun isearch :: "string \<Rightarrow> string \<Rightarrow> bool" where
  "isearch [] pat = False"
| "isearch (t # ts) pat = (if istarts_with (t # ts) pat then True else isearch ts pat)"

text \<open>\<^verbatim>\<open>boost::ifind_first(input, search)\<close> converted to \<^verbatim>\<open>bool\<close>: true when the search
  string occurs in the input, letter case ignored. An empty search string gives the empty
  range, which converts to false.\<close>

definition ifind_first :: "string \<Rightarrow> string \<Rightarrow> bool" where
  "ifind_first input search = (search \<noteq> [] \<and> isearch input search)"

text \<open>\<^verbatim>\<open>atoi(h.c_str())\<close>: \<^verbatim>\<open>c_str\<close> ends at the first NUL; \<^verbatim>\<open>atoi\<close> skips white space,
  reads an optional sign and then decimal digits up to the first other character, and
  gives 0 when there is no digit. The result is stored in the 32-bit \<^verbatim>\<open>int m_version\<close>
  (lines 192 and 340). For digit strings beyond the range of \<^verbatim>\<open>int\<close> the C standard
  leaves the result open; the model takes what the C library computes, \<^verbatim>\<open>strtol\<close>
  converted to \<^verbatim>\<open>int\<close>: the value is held to the range of the 64-bit \<^verbatim>\<open>long\<close> and
  then cut to its low 32 bits, read in two's complement.\<close>

definition c_str :: "string \<Rightarrow> string" where
  "c_str s = takeWhile (\<lambda>ch. ch \<noteq> CHR 0x00) s"

definition isspace :: "char \<Rightarrow> bool" where
  "isspace ch = (ch \<in> set [CHR '' '', CHR 0x09, CHR 0x0A, CHR 0x0B, CHR 0x0C, CHR 0x0D])"

definition isdigit :: "char \<Rightarrow> bool" where
  "isdigit ch = (ch \<in> set ''0123456789'')"

definition digit_value :: "char \<Rightarrow> int" where
  "digit_value ch = int (std_find ''0123456789'' ch)"

definition digits_value :: "string \<Rightarrow> int" where
  "digits_value s = foldl (\<lambda>acc ch. 10 * acc + digit_value ch) 0 (takeWhile isdigit s)"

definition strtol :: "string \<Rightarrow> int" where
  "strtol s =
     (let v =
        (case dropWhile isspace s of
           [] \<Rightarrow> 0
         | ch # rest \<Rightarrow>
             if ch = CHR ''-'' then - digits_value rest
             else if ch = CHR ''+'' then digits_value rest
             else digits_value (ch # rest))
      in max (- (2 ^ 63)) (min (2 ^ 63 - 1) v))"

definition int_of_long :: "int \<Rightarrow> int" where
  "int_of_long v = (v + 2 ^ 31) mod 2 ^ 32 - 2 ^ 31"

definition atoi :: "string \<Rightarrow> int" where
  "atoi s = int_of_long (strtol s)"

subsection \<open>The collaborators, at their interface\<close>

text \<open>Modelled from the spec: the values of \<^verbatim>\<open>http::status_code\<close> are declared outside
  the file. The role uses three of them: 101, 200 and 400.\<close>

definition SWITCHING_PROTOCOLS :: nat where "SWITCHING_PROTOCOLS = 101"
definition OK :: nat where "OK = 200"
definition BAD_REQUEST :: nat where "BAD_REQUEST = 400"

text \<open>The parsed request (\<^verbatim>\<open>http::parser::request\<close>) is read through three accessors:
  \<^verbatim>\<open>header(key)\<close>, which gives the empty string for a header that is absent,
  \<^verbatim>\<open>uri()\<close> and \<^verbatim>\<open>raw()\<close>. The parser itself is a parameter of the model.\<close>

record http_request =
  req_header :: "string \<Rightarrow> string"
  req_uri :: string
  req_raw :: string

text \<open>Modelled from the spec: \<^verbatim>\<open>http::parser::response\<close> (http/parser.hpp) is not part of
  the file. The spec describes a value object with a status, a message, a body and
  headers that are added, replaced and removed. Headers are kept as the list of
  name/value lines in the order they were set.\<close>

record http_response =
  version :: string
  status_code :: nat
  status_msg :: string
  headers :: "(string \<times> string) list"
  body :: string

definition status_string :: "nat \<Rightarrow> string" where
  "status_string code =
     (if code = SWITCHING_PROTOCOLS then ''Switching Protocols''
      else if code = OK then ''OK''
      else if code = BAD_REQUEST then ''Bad Request''
      else ''Unknown'')"

definition set_version :: "string \<Rightarrow> http_response \<Rightarrow> http_response" where
  "set_version v r = r\<lparr>version := v\<rparr>"

definition set_status :: "nat \<Rightarrow> string \<Rightarrow> http_response \<Rightarrow> http_response" where
  "set_status code msg r = r\<lparr>status_code := code, status_msg := msg\<rparr>"

definition set_status_code :: "nat \<Rightarrow> http_response \<Rightarrow> http_response" where
  "set_status_code code r = set_status code (status_string code) r"

definition response_set_body :: "string \<Rightarrow> http_response \<Rightarrow> http_response" where
  "response_set_body v r = r\<lparr>body := v\<rparr>"

definition remove_header :: "string \<Rightarrow> http_response \<Rightarrow> http_response" where
  "remove_header key r = r\<lparr>headers := filter (\<lambda>kv. fst kv \<noteq> key) (headers r)\<rparr>"

definition add_header :: "string \<Rightarrow> string \<Rightarrow> http_response \<Rightarrow> http_response" where
  "add_header key val r = r\<lparr>headers := headers r @ [(key, val)]\<rparr>"

definition replace_header :: "string \<Rightarrow> string \<Rightarrow> http_response \<Rightarrow> http_response" where
  "replace_header key val r = add_header key val (remove_header key r)"

text \<open>The values a response carries for one header name.\<close>

definition header_values :: "http_response \<Rightarrow> string \<Rightarrow> string list" where
  "header_values r key = map snd (filter (\<lambda>kv. fst kv = key) (headers r))"

definition empty_response :: http_response where
  "empty_response =
     \<lparr>version = [], status_code = 0, status_msg = [], headers = [], body = []\<rparr>"

text \<open>The URI value (\<^verbatim>\<open>uri\<close>, behind the shared pointer \<^verbatim>\<open>uri_ptr\<close>).\<close>

record uri =
  secure :: bool
  host :: string
  port :: "16 word"
  resource :: string

text \<open>The protocol processor (\<^verbatim>\<open>processor::hybi\<close>), as the four member functions the
  role calls. \<^verbatim>\<open>validate_handshake\<close> returns the exception it throws, if any.\<close>

record processor =
  validate_handshake :: "http_request \<Rightarrow> exn option"
  get_origin :: "http_request \<Rightarrow> string"
  get_uri :: "http_request \<Rightarrow> exn + uri"
  handshake_response :: "http_request \<Rightarrow> http_response \<Rightarrow> http_response"

text \<open>Modelled from the spec: \<^verbatim>\<open>session::state\<close> is declared outside the file, which
  names only \<^verbatim>\<open>OPEN\<close>. A connection starts in CONNECTING and ends in OPEN or CLOSED.\<close>

datatype session_state = CONNECTING | OPEN | CLOSED

subsection \<open>The connection\<close>

text \<open>The private members of \<^verbatim>\<open>role::server::connection\<close> (lines 340 to 350), and the
  two members of the enclosing connection that the role writes, \<^verbatim>\<open>m_state\<close> and
  \<^verbatim>\<open>m_processor\<close>. A shared pointer is an option: \<open>None\<close> is the null pointer.\<close>

record connection =
  m_state :: session_state
  m_processor :: "processor option"
  m_version :: int
  m_uri :: "uri option"
  m_origin :: string
  m_requested_subprotocols :: "string list"
  m_requested_extensions :: "string list"
  m_subprotocol :: string
  m_extensions :: "string list"
  m_request :: http_request
  m_response :: http_response

text \<open>The connection as its constructor leaves it (lines 143 to 147): version \<open>-1\<close>, a
  null URI, and every other member default-constructed. The enclosing connection starts
  in the state CONNECTING with a null processor.\<close>

definition new_connection :: connection where
  "new_connection =
     \<lparr>m_state = CONNECTING, m_processor = None, m_version = - 1, m_uri = None,
      m_origin = [], m_requested_subprotocols = [], m_requested_extensions = [],
      m_subprotocol = [], m_extensions = [],
      m_request = \<lparr>req_header = (\<lambda>key. []), req_uri = [], req_raw = []\<rparr>,
      m_response = empty_response\<rparr>"

subsection \<open>The public member functions (lines 85 to 140)\<close>

definition add_response_header :: "string \<Rightarrow> string \<Rightarrow> connection \<Rightarrow> connection result" where
  "add_response_header key val c = Normal (c\<lparr>m_response := add_header key val (m_response c)\<rparr>)"

definition replace_response_header ::
  "string \<Rightarrow> string \<Rightarrow> connection \<Rightarrow> connection result" where
  "replace_response_header key val c =
     Normal (c\<lparr>m_response := replace_header key val (m_response c)\<rparr>)"

definition remove_response_header :: "string \<Rightarrow> connection \<Rightarrow> connection result" where
  "remove_response_header key c = Normal (c\<lparr>m_response := remove_header key (m_response c)\<rparr>)"

definition select_subprotocol :: "string \<Rightarrow> connection \<Rightarrow> connection result" where
  "select_subprotocol val c =
     (let it = std_find (m_requested_subprotocols c) val in
      if val \<noteq> [] \<and> it = length (m_requested_subprotocols c)
      then Thrown (Invalid_argument
             ''Attempted to choose a subprotocol not proposed by the client'') c
      else Normal (c\<lparr>m_subprotocol := val\<rparr>))"

definition select_extension :: "string \<Rightarrow> connection \<Rightarrow> connection result" where
  "select_extension val c =
     (if val = [] then Normal c
      else
        (let it = std_find (m_requested_extensions c) val in
         if it = length (m_requested_extensions c)
         then Thrown (Invalid_argument
                ''Attempted to choose an extension not proposed by the client'') c
         else Normal (c\<lparr>m_extensions := m_extensions c @ [val]\<rparr>)))"

definition set_body :: "string \<Rightarrow> connection \<Rightarrow> connection result" where
  "set_body val c =
     (if m_version c \<noteq> - 1
      then Thrown (Invalid_argument ''set_body called from invalid state'') c
      else Normal (c\<lparr>m_response := response_set_body val (m_response c)\<rparr>))"

subsection \<open>The handler\<close>

text \<open>The application's handler receives the connection and acts on it through the public
  member functions above, or throws. One call of a hook is the list of member-function
  calls it makes, chosen from the connection it is given; an exception leaves the hook
  at the call that throws it. (A hook that catches the exception of a setter behaves as
  the hook that never calls it, since the setter changes nothing when it throws.)\<close>

datatype action =
    Add_response_header string string
  | Replace_response_header string string
  | Remove_response_header string
  | Select_subprotocol string
  | Select_extension string
  | Set_body string
  | Throw exn

fun call :: "action \<Rightarrow> connection \<Rightarrow> connection result" where
  "call (Add_response_header key val) c = add_response_header key val c"
| "call (Replace_response_header key val) c = replace_response_header key val c"
| "call (Remove_response_header key) c = remove_response_header key c"
| "call (Select_subprotocol val) c = select_subprotocol val c"
| "call (Select_extension val) c = select_extension val c"
| "call (Set_body val) c = set_body val c"
| "call (Throw e) c = Thrown e c"

fun run :: "action list \<Rightarrow> connection \<Rightarrow> connection result" where
  "run [] c = Normal c"
| "run (a # as) c =
     (case call a c of
        Normal c' \<Rightarrow> run as c'
      | Thrown e c' \<Rightarrow> Thrown e c'
      | Undefined \<Rightarrow> Undefined)"

text \<open>The calls of the two negotiation setters.\<close>

fun selects :: "action \<Rightarrow> bool" where
  "selects (Select_subprotocol val) = True"
| "selects (Select_extension val) = True"
| "selects a = False"

type_synonym hook = "connection \<Rightarrow> action list"

record handler =
  validate :: hook
  http :: hook
  on_open :: hook

definition invoke :: "hook \<Rightarrow> connection \<Rightarrow> connection result" where
  "invoke h c = run (h c) c"

subsection \<open>The endpoint and the library around the role\<close>

text \<open>What the role reaches through \<^verbatim>\<open>m_endpoint\<close> and through classes that are not part
  of the file: the TLS flag, the handler, the HTTP parser (\<^verbatim>\<open>parse_complete\<close>, from the
  request so far and the buffered bytes to its verdict and the parsed request), the
  processor that \<^verbatim>\<open>new processor::hybi\<close> builds, the serialiser \<^verbatim>\<open>raw()\<close> of the
  response, and the two facts about ports the URI class decides.\<close>

record env =
  is_secure :: bool
  get_handler :: handler
  parse_complete :: "http_request \<Rightarrow> string \<Rightarrow> bool \<times> http_request"
  hybi :: processor
  response_raw :: "http_response \<Rightarrow> string"
  port_from_string :: "string \<Rightarrow> 16 word option"
  default_port :: "bool \<Rightarrow> 16 word"

text \<open>Modelled from the spec: the constructors of \<^verbatim>\<open>uri\<close> (uri.hpp) are not part of the
  file. With no port given the URI takes the default port; with a port string the port
  is parsed from it, and a string that is no port is a \<^verbatim>\<open>uri_exception\<close>. The resource
  is the request target as passed.\<close>

definition new_uri :: "env \<Rightarrow> bool \<Rightarrow> string \<Rightarrow> string \<Rightarrow> exn + uri" where
  "new_uri env sec h res =
     Inr \<lparr>secure = sec, host = h, port = default_port env sec, resource = res\<rparr>"

definition new_uri_port :: "env \<Rightarrow> bool \<Rightarrow> string \<Rightarrow> string \<Rightarrow> string \<Rightarrow> exn + uri" where
  "new_uri_port env sec h p res =
     (case port_from_string env p of
        None \<Rightarrow> Inl (Uri_exception ''Error parsing port string'')
      | Some n \<Rightarrow> Inr \<lparr>secure = sec, host = h, port = n, resource = res\<rparr>)"

subsection \<open>What the role does to the outside\<close>

text \<open>The calls that leave the role are recorded in order: log lines, the handler's hooks,
  the processor's validation, the asynchronous write and the hand-over to the frame loop.
  The handler cannot reach this record.\<close>

datatype event =
    Elog
  | Alog
  | Terminate bool
  | Call_validate_handshake
  | Call_validate
  | Call_http
  | Call_on_open
  | Async_write string
  | Handle_read_frame

type_synonym world = "connection \<times> event list"

text \<open>Modelled from the spec: \<^verbatim>\<open>connection::terminate\<close> (connection.hpp) is not part of the
  file. Every termination, graceful or not, ends in the state CLOSED.\<close>

definition terminate :: "bool \<Rightarrow> world \<Rightarrow> world" where
  "terminate graceful w = ((fst w)\<lparr>m_state := CLOSED\<rparr>, snd w @ [Terminate graceful])"

definition and_then :: "'a result \<Rightarrow> ('a \<Rightarrow> 'a result) \<Rightarrow> 'a result" where
  "and_then r f = (case r of Normal x \<Rightarrow> f x | Thrown e x \<Rightarrow> Thrown e x | Undefined \<Rightarrow> Undefined)"

definition with_events :: "event list \<Rightarrow> connection result \<Rightarrow> world result" where
  "with_events tr r =
     (case r of
        Normal c \<Rightarrow> Normal (c, tr)
      | Thrown e c \<Rightarrow> Thrown e (c, tr)
      | Undefined \<Rightarrow> Undefined)"

subsection \<open>Reading the request (lines 164 to 255)\<close>

text \<open>Lines 186 to 196: the version from \<^verbatim>\<open>Sec-WebSocket-Version\<close>.\<close>

definition read_version :: "connection \<Rightarrow> connection result" where
  "read_version c =
     (let h = req_header (m_request c) ''Sec-WebSocket-Version'' in
      if h = [] then Normal (c\<lparr>m_version := 0\<rparr>)
      else
        (let c1 = c\<lparr>m_version := atoi (c_str h)\<rparr> in
         if m_version c1 = 0
         then Thrown (Http_exception ''Unable to determine connection version''
                BAD_REQUEST [] []) c1
         else Normal c1))"

text \<open>Lines 198 to 211: the processor for the version.\<close>

definition create_processor :: "env \<Rightarrow> connection \<Rightarrow> connection result" where
  "create_processor env c =
     (if m_version c = 0
      then Thrown (Http_exception ''Unsupported WebSocket version'' BAD_REQUEST [] [])
             (c\<lparr>m_response := add_header ''Sec-WebSocket-Version'' ''13, 8, 7'' (m_response c)\<rparr>)
      else if m_version c = 7 \<or> m_version c = 8 \<or> m_version c = 13
      then Normal (c\<lparr>m_processor := Some (hybi env)\<rparr>)
      else Thrown (Http_exception ''Unsupported WebSocket version'' BAD_REQUEST [] [])
             (c\<lparr>m_response := add_header ''Sec-WebSocket-Version'' ''13, 8, 7'' (m_response c)\<rparr>))"

text \<open>Lines 213 to 219: validation by the processor and by the handler.\<close>

definition validate_request :: "env \<Rightarrow> world \<Rightarrow> world result" where
  "validate_request env w =
     (let c = fst w; tr = snd w in
      case m_processor c of
        None \<Rightarrow> Undefined
      | Some p \<Rightarrow>
          (case validate_handshake p (m_request c) of
             Some e \<Rightarrow> Thrown e (c, tr @ [Call_validate_handshake])
           | None \<Rightarrow>
               (let c1 = c\<lparr>m_origin := get_origin p (m_request c)\<rparr>;
                    tr1 = tr @ [Call_validate_handshake] in
                case get_uri p (m_request c1) of
                  Inl e \<Rightarrow> Thrown e (c1, tr1)
                | Inr u \<Rightarrow>
                    and_then
                      (with_events (tr1 @ [Call_validate])
                         (invoke (validate (get_handler env)) (c1\<lparr>m_uri := Some u\<rparr>)))
                      (\<lambda>w2. Normal ((fst w2)\<lparr>m_response :=
                                 set_status_code SWITCHING_PROTOCOLS (m_response (fst w2))\<rparr>,
                               snd w2)))))"

text \<open>Lines 186 to 219: the branch of a WebSocket upgrade.\<close>

definition upgrade_request :: "env \<Rightarrow> world \<Rightarrow> world result" where
  "upgrade_request env w =
     and_then
       (with_events (snd w) (and_then (read_version (fst w)) (create_processor env)))
       (validate_request env)"

text \<open>Lines 221 to 242: the branch of a plain HTTP request.\<close>

definition host_uri :: "env \<Rightarrow> http_request \<Rightarrow> exn + uri" where
  "host_uri env rq =
     (let h = req_header rq ''Host'' in
      case string_find h CHR '':'' of
        None \<Rightarrow> new_uri env (is_secure env) h (req_uri rq)
      | Some found \<Rightarrow>
          new_uri_port env (is_secure env) (take found h) (drop (found + 1) h) (req_uri rq))"

definition plain_request :: "env \<Rightarrow> world \<Rightarrow> world result" where
  "plain_request env w =
     and_then
       (with_events (snd w @ [Call_http]) (invoke (http (get_handler env)) (fst w)))
       (\<lambda>w1.
          (let c1 = (fst w1)\<lparr>m_origin := req_header (m_request (fst w1)) ''Origin''\<rparr> in
           case host_uri env (m_request c1) of
             Inl e \<Rightarrow> Thrown e (c1, snd w1)
           | Inr u \<Rightarrow>
               Normal (c1\<lparr>m_uri := Some u,
                          m_response := set_status_code OK (m_response c1)\<rparr>,
                       snd w1)))"

text \<open>Lines 175 to 243: the body of the \<^verbatim>\<open>try\<close> block.\<close>

definition try_block :: "env \<Rightarrow> string \<Rightarrow> world \<Rightarrow> world result" where
  "try_block env buf w =
     (let parsed = parse_complete env (m_request (fst w)) buf;
          c1 = (fst w)\<lparr>m_request := snd parsed\<rparr> in
      if \<not> fst parsed
      then Thrown (Http_exception ''Recieved invalid HTTP Request'' BAD_REQUEST [] [])
             (c1, snd w)
      else if ifind_first (req_header (m_request c1) ''Upgrade'') ''websocket''
      then upgrade_request env (c1, snd w @ [Alog])
      else plain_request env (c1, snd w @ [Alog]))"

text \<open>Lines 244 to 252: the two \<^verbatim>\<open>catch\<close> clauses. Any other exception leaves
  \<^verbatim>\<open>handle_read_request\<close>.\<close>

fun catch_clauses :: "world result \<Rightarrow> world result" where
  "catch_clauses (Thrown (Http_exception msg code error_msg error_body) w) =
     Normal ((fst w)\<lparr>m_response :=
                response_set_body error_body (set_status code error_msg (m_response (fst w)))\<rparr>,
             snd w @ [Elog])"
| "catch_clauses (Thrown (Uri_exception msg) w) =
     Normal ((fst w)\<lparr>m_response := set_status_code BAD_REQUEST (m_response (fst w))\<rparr>,
             snd w @ [Elog])"
| "catch_clauses r = r"

subsection \<open>Writing the response (lines 257 to 288)\<close>

definition write_response :: "env \<Rightarrow> world \<Rightarrow> world result" where
  "write_response env w =
     (let c1 = (fst w)\<lparr>m_response := set_version ''HTTP/1.1'' (m_response (fst w))\<rparr> in
      case
        (if status_code (m_response c1) = SWITCHING_PROTOCOLS
         then
           (case m_processor c1 of
              None \<Rightarrow> Undefined
            | Some p \<Rightarrow>
                (let c2 = c1\<lparr>m_response := handshake_response p (m_request c1) (m_response c1)\<rparr> in
                 if m_subprotocol c2 \<noteq> []
                 then Normal (c2\<lparr>m_response :=
                        replace_header ''Sec-WebSocket-Protocol'' (m_subprotocol c2) (m_response c2)\<rparr>)
                 else Normal c2))
         else Normal c1)
      of
        Normal c3 \<Rightarrow>
          (let c4 = c3\<lparr>m_response :=
                       replace_header ''Server'' ''WebSocket++/2011-11-18'' (m_response c3)\<rparr>;
               raw = response_raw env (m_response c4) in
           Normal (c4, snd w @ [Alog, Async_write raw]))
      | Thrown e c3 \<Rightarrow> Thrown e (c3, snd w)
      | Undefined \<Rightarrow> Undefined)"

definition handle_read_request :: "env \<Rightarrow> bool \<Rightarrow> string \<Rightarrow> world \<Rightarrow> world result" where
  "handle_read_request env error buf w =
     (if error then Normal (terminate False (fst w, snd w @ [Elog]))
      else and_then (catch_clauses (try_block env buf w)) (write_response env))"

subsection \<open>After the write (lines 290 to 334)\<close>

text \<open>\<^verbatim>\<open>log_open_result\<close> writes one access-log line; for it, it calls
  \<^verbatim>\<open>m_uri->get_resource()\<close>, whatever \<^verbatim>\<open>m_uri\<close> holds.\<close>

definition log_open_result :: "world \<Rightarrow> world result" where
  "log_open_result w =
     (case m_uri (fst w) of
        None \<Rightarrow> Undefined
      | Some u \<Rightarrow> Normal (fst w, snd w @ [Alog]))"

definition handle_write_response :: "env \<Rightarrow> bool \<Rightarrow> world \<Rightarrow> world result" where
  "handle_write_response env error w =
     (if error then Normal (terminate False (fst w, snd w @ [Elog]))
      else
        and_then (log_open_result w)
          (\<lambda>w1.
             if status_code (m_response (fst w1)) \<noteq> SWITCHING_PROTOCOLS
             then
               (if m_version (fst w1) = - 1 then Normal (terminate True w1)
                else Normal (terminate True (fst w1, snd w1 @ [Elog])))
             else
               and_then
                 (with_events (snd w1 @ [Call_on_open])
                    (invoke (on_open (get_handler env)) ((fst w1)\<lparr>m_state := OPEN\<rparr>)))
                 (\<lambda>w2. Normal (fst w2, snd w2 @ [Handle_read_frame]))))"

text \<open>The handshake of one connection: \<^verbatim>\<open>async_init\<close> binds \<^verbatim>\<open>handle_read_request\<close> to
  the read, and \<^verbatim>\<open>write_response\<close> binds \<^verbatim>\<open>handle_write_response\<close> to the write it
  starts. After a failed read no write is started.\<close>

definition handshake :: "env \<Rightarrow> bool \<Rightarrow> string \<Rightarrow> bool \<Rightarrow> world \<Rightarrow> world result" where
  "handshake env read_error buf write_error w =
     (if read_error then handle_read_request env True buf w
      else and_then (handle_read_request env False buf w) (handle_write_response env write_error))"

text \<open>What can be seen of a result: the connection it leaves, and the events.\<close>

fun final_connection :: "world result \<Rightarrow> connection option" where
  "final_connection (Normal w) = Some (fst w)"
| "final_connection (Thrown e w) = Some (fst w)"
| "final_connection Undefined = None"

fun final_events :: "world result \<Rightarrow> event list option" where
  "final_events (Normal w) = Some (snd w)"
| "final_events (Thrown e w) = Some (snd w)"
| "final_events Undefined = None"

definition final_response :: "world result \<Rightarrow> http_response option" where
  "final_response r = map_option m_response (final_connection r)"

text \<open>A property of whatever a result leaves behind: \<open>holds\<close> asks nothing of an
  undefined result, \<open>surely\<close> also rules it out.\<close>

fun holds :: "('a \<Rightarrow> bool) \<Rightarrow> 'a result \<Rightarrow> bool" where
  "holds P (Normal x) = P x"
| "holds P (Thrown e x) = P x"
| "holds P Undefined = True"

fun surely :: "('a \<Rightarrow> bool) \<Rightarrow> 'a result \<Rightarrow> bool" where
  "surely P (Normal x) = P x"
| "surely P (Thrown e x) = P x"
| "surely P Undefined = False"

text \<open>The four members of the negotiation: what the client offered (lines 343 and 344) and
  what was chosen from it (lines 345 and 346). The constructor leaves all four empty.\<close>

definition negotiation :: "connection \<Rightarrow> string list \<times> string list \<times> string \<times> string list" where
  "negotiation c =
     (m_requested_subprotocols c, m_requested_extensions c, m_subprotocol c, m_extensions c)"

definition nothing_offered :: "connection \<Rightarrow> bool" where
  "nothing_offered c = (negotiation c = ([], [], [], []))"

text \<open>Two connections that differ at most in the response and in the negotiated
  subprotocol and extensions: all that the public member functions write.\<close>

definition same_but_negotiation :: "connection \<Rightarrow> connection \<Rightarrow> bool" where
  "same_but_negotiation c c' =
     (m_state c' = m_state c \<and> m_processor c' = m_processor c \<and> m_version c' = m_version c
      \<and> m_uri c' = m_uri c \<and> m_origin c' = m_origin c
      \<and> m_requested_subprotocols c' = m_requested_subprotocols c
      \<and> m_requested_extensions c' = m_requested_extensions c
      \<and> m_request c' = m_request c)"

subsection \<open>A sample endpoint\<close>

text \<open>A small endpoint on which the statements below are exercised: a parser that accepts
  a buffer starting with \<^verbatim>\<open>GET\<close> and a blank and yields a given request, a processor
  that accepts every handshake, a handler whose hooks do nothing, and decimal ports with
  80 and 443 as the defaults.\<close>

definition sample_request :: "string \<Rightarrow> string \<Rightarrow> string \<Rightarrow> string \<Rightarrow> http_request" where
  "sample_request upgrade ver hosth target =
     \<lparr>req_header =
        (\<lambda>key. if key = ''Upgrade'' then upgrade
               else if key = ''Sec-WebSocket-Version'' then ver
               else if key = ''Host'' then hosth
               else []),
      req_uri = target, req_raw = []\<rparr>"

definition sample_processor :: processor where
  "sample_processor =
     \<lparr>validate_handshake = (\<lambda>rq. None),
      get_origin = (\<lambda>rq. req_header rq ''Origin''),
      get_uri = (\<lambda>rq. Inr \<lparr>secure = False, host = req_header rq ''Host'', port = 80,
                            resource = req_uri rq\<rparr>),
      handshake_response = (\<lambda>rq r. replace_header ''Upgrade'' ''websocket'' r)\<rparr>"

definition quiet_handler :: handler where
  "quiet_handler = \<lparr>validate = (\<lambda>c. []), http = (\<lambda>c. []), on_open = (\<lambda>c. [])\<rparr>"

definition decimal_port :: "string \<Rightarrow> 16 word option" where
  "decimal_port s =
     (if s \<noteq> [] \<and> takeWhile isdigit s = s \<and> digits_value s < 65536
      then Some (word_of_int (digits_value s))
      else None)"

definition sample_env :: "http_request \<Rightarrow> env" where
  "sample_env rq =
     \<lparr>is_secure = False,
      get_handler = quiet_handler,
      parse_complete = (\<lambda>old buf. if take 4 buf = ''GET '' then (True, rq) else (False, old)),
      hybi = sample_processor,
      response_raw = (\<lambda>r. version r @ '' '' @ status_msg r),
      port_from_string = decimal_port,
      default_port = (\<lambda>sec. if sec then 443 else 80)\<rparr>"

section \<open>Properties\<close>

lemma std_find_le: "std_find xs v \<le> length xs"
  by (induction xs) auto

lemma std_find_end: "std_find xs v = length xs \<longleftrightarrow> v \<notin> set xs"
proof (induction xs)
  case Nil
  show ?case by simp
next
  case (Cons x xs)
  have "std_find xs v \<le> length xs" by (rule std_find_le)
  with Cons show ?case by auto
qed

subsection \<open>Headers and status of a response\<close>

lemma header_values_add_header:
  "header_values (add_header key val r) k = header_values r k @ (if key = k then [val] else [])"
  by (simp add: header_values_def add_header_def)

lemma header_values_remove_header:
  "header_values (remove_header key r) k = (if key = k then [] else header_values r k)"
proof -
  have "filter (\<lambda>kv. fst kv = k) (filter (\<lambda>kv. fst kv \<noteq> key) xs) =
        (if key = k then [] else filter (\<lambda>kv. fst kv = k) xs)" for xs :: "(string \<times> string) list"
    by (induction xs) auto
  then show ?thesis by (simp add: header_values_def remove_header_def)
qed

lemma header_values_replace_header:
  "header_values (replace_header key val r) k = (if key = k then [val] else header_values r k)"
  by (simp add: replace_header_def header_values_add_header header_values_remove_header)

lemma header_values_set_version: "header_values (set_version v r) k = header_values r k"
  by (simp add: header_values_def set_version_def)

lemma header_values_set_status: "header_values (set_status code msg r) k = header_values r k"
  by (simp add: header_values_def set_status_def)

lemma header_values_set_status_code: "header_values (set_status_code code r) k = header_values r k"
  by (simp add: set_status_code_def header_values_set_status)

lemma header_values_response_set_body: "header_values (response_set_body v r) k = header_values r k"
  by (simp add: header_values_def response_set_body_def)

lemma status_code_simps:
  "status_code (set_version v r) = status_code r"
  "status_code (set_status code msg r) = code"
  "status_code (set_status_code code r) = code"
  "status_code (response_set_body b r) = status_code r"
  "status_code (add_header key val r) = status_code r"
  "status_code (remove_header key r) = status_code r"
  "status_code (replace_header key val r) = status_code r"
  by (simp_all add: set_version_def set_status_def set_status_code_def response_set_body_def
      add_header_def remove_header_def replace_header_def)

lemmas header_values_simps = header_values_add_header header_values_remove_header
  header_values_replace_header header_values_set_version header_values_set_status
  header_values_set_status_code header_values_response_set_body

subsection \<open>The version the role settles on\<close>

lemma read_version_absent:
  "req_header (m_request c) ''Sec-WebSocket-Version'' = [] \<Longrightarrow>
   and_then (read_version c) (create_processor env) =
     Thrown (Http_exception ''Unsupported WebSocket version'' BAD_REQUEST [] [])
       (c\<lparr>m_version := 0,
          m_response := add_header ''Sec-WebSocket-Version'' ''13, 8, 7'' (m_response c)\<rparr>)"
  by (simp add: read_version_def create_processor_def and_then_def)

lemma read_version_zero:
  "req_header (m_request c) ''Sec-WebSocket-Version'' = h \<Longrightarrow> h \<noteq> [] \<Longrightarrow> atoi (c_str h) = 0 \<Longrightarrow>
   and_then (read_version c) (create_processor env) =
     Thrown (Http_exception ''Unable to determine connection version'' BAD_REQUEST [] [])
       (c\<lparr>m_version := 0\<rparr>)"
  by (simp add: read_version_def create_processor_def and_then_def)

lemma read_version_other:
  "req_header (m_request c) ''Sec-WebSocket-Version'' = h \<Longrightarrow> h \<noteq> [] \<Longrightarrow> atoi (c_str h) \<noteq> 0 \<Longrightarrow>
   atoi (c_str h) \<notin> {7, 8, 13} \<Longrightarrow>
   and_then (read_version c) (create_processor env) =
     Thrown (Http_exception ''Unsupported WebSocket version'' BAD_REQUEST [] [])
       (c\<lparr>m_version := atoi (c_str h),
          m_response := add_header ''Sec-WebSocket-Version'' ''13, 8, 7'' (m_response c)\<rparr>)"
  by (simp add: read_version_def create_processor_def and_then_def Let_def)

lemma atoi_c_str_empty: "atoi (c_str []) = 0"
  by (simp add: atoi_def strtol_def int_of_long_def c_str_def)

text \<open>Beyond the range of \<^verbatim>\<open>int\<close> the version is what is left in the low 32 bits.\<close>

lemma atoi_beyond_int:
  "atoi (c_str ''4294967303'') = 7"
  "atoi (c_str ''4294967296'') = 0"
  "atoi (c_str ''13abc'') = 13"
  by (simp_all add: atoi_def strtol_def int_of_long_def c_str_def isspace_def
      digits_value_def isdigit_def digit_value_def)

lemma read_version_supported:
  assumes "req_header (m_request c) ''Sec-WebSocket-Version'' = h"
    and "atoi (c_str h) \<in> {7, 8, 13}"
  shows "and_then (read_version c) (create_processor env) =
     Normal (c\<lparr>m_version := atoi (c_str h), m_processor := Some (hybi env)\<rparr>)"
proof -
  from assms(2) atoi_c_str_empty have "h \<noteq> []" by auto
  with assms show ?thesis
    by (auto simp add: read_version_def create_processor_def and_then_def Let_def)
qed

lemma write_response_not_upgrade:
  "status_code (m_response c) \<noteq> SWITCHING_PROTOCOLS \<Longrightarrow>
   write_response env (c, tr) =
     Normal (c\<lparr>m_response := replace_header ''Server'' ''WebSocket++/2011-11-18''
                 (set_version ''HTTP/1.1'' (m_response c))\<rparr>,
             tr @ [Alog, Async_write (response_raw env (replace_header ''Server''
                 ''WebSocket++/2011-11-18'' (set_version ''HTTP/1.1'' (m_response c))))])"
  by (simp add: write_response_def Let_def status_code_simps)

subsection \<open>Rejection of an unsupported version\<close>

text \<open>C1, as the code has it. For a parsed request whose \<^verbatim>\<open>Upgrade\<close> header contains
  \<^verbatim>\<open>websocket\<close> and whose \<^verbatim>\<open>Sec-WebSocket-Version\<close> header is absent or does not parse
  to 7, 8 or 13, \<^verbatim>\<open>handle_read_request\<close> answers with status 400: it serialises the
  response, of status 400 and version \<^verbatim>\<open>HTTP/1.1\<close>, and starts the write of it. The header
  \<^verbatim>\<open>Sec-WebSocket-Version: 13, 8, 7\<close> is added when the version header is absent or
  parses to a non-zero integer outside the set; when the header is present and parses to 0
  (a non-numeric value, or \<^verbatim>\<open>0\<close> itself) the exception of line 194 is thrown before
  the header is added, and no such header is added.\<close>

theorem unsupported_version_response:
  assumes parsed: "parse_complete env (m_request c) buf = (True, rq)"
    and upgrade: "ifind_first (req_header rq ''Upgrade'') ''websocket''"
    and h: "h = req_header rq ''Sec-WebSocket-Version''"
    and unsupported: "h = [] \<or> atoi (c_str h) \<notin> {7, 8, 13}"
  shows "\<exists>c'. handle_read_request env False buf (c, tr) =
        Normal (c', tr @ [Alog, Elog, Alog, Async_write (response_raw env (m_response c'))])
      \<and> status_code (m_response c') = BAD_REQUEST
      \<and> status_msg (m_response c') = []
      \<and> version (m_response c') = ''HTTP/1.1''
      \<and> header_values (m_response c') ''Sec-WebSocket-Version'' =
          header_values (m_response c) ''Sec-WebSocket-Version'' @
            (if h \<noteq> [] \<and> atoi (c_str h) = 0 then [] else [''13, 8, 7''])"
proof -
  let ?c1 = "c\<lparr>m_request := rq\<rparr>"
  have tb: "try_block env buf (c, tr) =
      and_then (with_events (tr @ [Alog]) (and_then (read_version ?c1) (create_processor env)))
        (validate_request env)"
    using parsed upgrade by (simp add: try_block_def upgrade_request_def)
  have hdr: "req_header (m_request ?c1) ''Sec-WebSocket-Version'' = h"
    using h by simp
  have bad: "BAD_REQUEST \<noteq> SWITCHING_PROTOCOLS"
    by (simp add: BAD_REQUEST_def SWITCHING_PROTOCOLS_def)
  consider (absent) "h = []" | (zero) "h \<noteq> []" "atoi (c_str h) = 0"
    | (other) "h \<noteq> []" "atoi (c_str h) \<noteq> 0" "atoi (c_str h) \<notin> {7, 8, 13}"
    using unsupported by blast
  then show ?thesis
  proof cases
    case absent
    with hdr have "req_header (m_request ?c1) ''Sec-WebSocket-Version'' = []" by simp
    from read_version_absent [OF this, of env] absent bad show ?thesis
      by (simp add: handle_read_request_def tb with_events_def and_then_def
          write_response_not_upgrade status_code_simps header_values_simps)
        (simp add: replace_header_def add_header_def remove_header_def set_version_def
          response_set_body_def set_status_def)
  next
    case zero
    from read_version_zero [OF hdr zero, of env] zero bad show ?thesis
      by (simp add: handle_read_request_def tb with_events_def and_then_def
          write_response_not_upgrade status_code_simps header_values_simps)
        (simp add: replace_header_def add_header_def remove_header_def set_version_def
          response_set_body_def set_status_def)
  next
    case other
    from read_version_other [OF hdr other, of env] other bad show ?thesis
      by (simp add: handle_read_request_def tb with_events_def and_then_def
          write_response_not_upgrade status_code_simps header_values_simps)
        (simp add: replace_header_def add_header_def remove_header_def set_version_def
          response_set_body_def set_status_def)
  qed
qed

text \<open>The theorem at the version \<^verbatim>\<open>99\<close>.\<close>

theorem unsupported_version_response_witness:
  "\<exists>c'. handle_read_request
       (sample_env (sample_request ''websocket'' ''99'' ''example.com'' ''/chat''))
       False ''GET /chat'' (new_connection, []) =
       Normal (c', [Alog, Elog, Alog, Async_write ''HTTP/1.1 ''])
     \<and> status_code (m_response c') = BAD_REQUEST
     \<and> header_values (m_response c') ''Sec-WebSocket-Version'' = [''13, 8, 7'']"
proof -
  let ?rq = "sample_request ''websocket'' ''99'' ''example.com'' ''/chat''"
  have "parse_complete (sample_env ?rq) (m_request new_connection) ''GET /chat'' = (True, ?rq)"
    by (simp add: sample_env_def)
  moreover have "ifind_first (req_header ?rq ''Upgrade'') ''websocket''"
    by (simp add: sample_request_def ifind_first_def to_upper_def)
  moreover have "''99'' = req_header ?rq ''Sec-WebSocket-Version''"
    by (simp add: sample_request_def)
  moreover have "''99'' = [] \<or> atoi (c_str ''99'') \<notin> {7, 8, 13}"
    by (simp add: atoi_def strtol_def int_of_long_def c_str_def isspace_def digits_value_def
        isdigit_def digit_value_def)
  ultimately obtain c' where
    "handle_read_request (sample_env ?rq) False ''GET /chat'' (new_connection, []) =
       Normal (c', [] @ [Alog, Elog, Alog,
         Async_write (response_raw (sample_env ?rq) (m_response c'))])"
    "status_code (m_response c') = BAD_REQUEST"
    "status_msg (m_response c') = []"
    "version (m_response c') = ''HTTP/1.1''"
    "header_values (m_response c') ''Sec-WebSocket-Version'' =
       header_values (m_response new_connection) ''Sec-WebSocket-Version'' @
         (if ''99'' \<noteq> [] \<and> atoi (c_str ''99'') = 0 then [] else [''13, 8, 7''])"
    using unsupported_version_response [of "sample_env ?rq" new_connection "''GET /chat''" ?rq
        "''99''" "[]"]
    by blast
  moreover have "atoi (c_str ''99'') = 99"
    by (simp add: atoi_def strtol_def int_of_long_def c_str_def isspace_def digits_value_def
        isdigit_def digit_value_def)
  moreover have "header_values (m_response new_connection) ''Sec-WebSocket-Version'' = []"
    by (simp add: new_connection_def empty_response_def header_values_def)
  ultimately show ?thesis
    by (simp add: sample_env_def)
qed

text \<open>C1 as stated fails for a non-numeric version: for \<^verbatim>\<open>Sec-WebSocket-Version: abc\<close> on
  a new connection the response has status 400 and its only header is \<^verbatim>\<open>Server\<close>.\<close>

theorem version_header_missing_for_non_numeric:
  "map_option status_code (final_response (handle_read_request
       (sample_env (sample_request ''websocket'' ''abc'' ''example.com'' ''/chat''))
       False ''GET /chat'' (new_connection, []))) = Some 400
   \<and> map_option headers (final_response (handle_read_request
       (sample_env (sample_request ''websocket'' ''abc'' ''example.com'' ''/chat''))
       False ''GET /chat'' (new_connection, []))) = Some [(''Server'', ''WebSocket++/2011-11-18'')]"
  by (simp add: final_response_def handle_read_request_def try_block_def upgrade_request_def
      read_version_def create_processor_def and_then_def with_events_def write_response_def
      sample_env_def sample_request_def ifind_first_def to_upper_def atoi_def strtol_def int_of_long_def
      c_str_def isspace_def digits_value_def isdigit_def digit_value_def new_connection_def
      empty_response_def BAD_REQUEST_def SWITCHING_PROTOCOLS_def set_status_def
      response_set_body_def set_version_def replace_header_def add_header_def remove_header_def)

subsection \<open>The negotiation setters\<close>

text \<open>C3. \<^verbatim>\<open>select_subprotocol\<close> with the empty string succeeds and clears the selection;
  with a non-empty value it succeeds and sets the selection when the value is one of the
  requested subprotocols, and otherwise throws \<^verbatim>\<open>std::invalid_argument\<close> and leaves the
  whole connection as it was.\<close>

theorem select_subprotocol_spec:
  "select_subprotocol [] c = Normal (c\<lparr>m_subprotocol := []\<rparr>)
   \<and> (v \<noteq> [] \<longrightarrow> v \<in> set (m_requested_subprotocols c) \<longrightarrow>
        select_subprotocol v c = Normal (c\<lparr>m_subprotocol := v\<rparr>))
   \<and> (v \<noteq> [] \<longrightarrow> v \<notin> set (m_requested_subprotocols c) \<longrightarrow>
        (\<exists>msg. select_subprotocol v c = Thrown (Invalid_argument msg) c))"
  by (simp add: select_subprotocol_def std_find_end)

text \<open>The theorem on a connection that was offered \<^verbatim>\<open>bar\<close>.\<close>

theorem select_subprotocol_spec_witness:
  "select_subprotocol ''foo'' (new_connection\<lparr>m_requested_subprotocols := [''bar'']\<rparr>) =
     Thrown (Invalid_argument ''Attempted to choose a subprotocol not proposed by the client'')
       (new_connection\<lparr>m_requested_subprotocols := [''bar'']\<rparr>)
   \<and> select_subprotocol ''bar'' (new_connection\<lparr>m_requested_subprotocols := [''bar'']\<rparr>) =
     Normal (new_connection\<lparr>m_requested_subprotocols := [''bar''], m_subprotocol := ''bar''\<rparr>)"
  using select_subprotocol_spec [of "new_connection\<lparr>m_requested_subprotocols := [''bar'']\<rparr>" "''foo''"]
    select_subprotocol_spec [of "new_connection\<lparr>m_requested_subprotocols := [''bar'']\<rparr>" "''bar''"]
  by (auto simp add: select_subprotocol_def)

lemma select_extension_accepted:
  "v \<noteq> [] \<Longrightarrow> v \<in> set (m_requested_extensions c) \<Longrightarrow>
   select_extension v c = Normal (c\<lparr>m_extensions := m_extensions c @ [v]\<rparr>)"
  by (simp add: select_extension_def std_find_end)

lemma run_select_extensions:
  "[] \<notin> set vs \<Longrightarrow> set vs \<subseteq> set (m_requested_extensions c) \<Longrightarrow>
   run (map Select_extension vs) c = Normal (c\<lparr>m_extensions := m_extensions c @ vs\<rparr>)"
proof (induction vs arbitrary: c)
  case Nil
  show ?case by simp
next
  case (Cons v vs)
  let ?c1 = "c\<lparr>m_extensions := m_extensions c @ [v]\<rparr>"
  from Cons.prems have step: "select_extension v c = Normal ?c1"
    by (intro select_extension_accepted) auto
  from Cons.prems have "run (map Select_extension vs) ?c1 =
      Normal (?c1\<lparr>m_extensions := m_extensions ?c1 @ vs\<rparr>)"
    by (intro Cons.IH) auto
  with step show ?case by simp
qed

text \<open>C4. \<^verbatim>\<open>select_extension\<close> with the empty string changes nothing and throws nothing;
  with a non-empty value that was not requested it throws \<^verbatim>\<open>std::invalid_argument\<close> and
  changes nothing; with a requested value it appends the value to the accepted
  extensions, so a sequence of successful calls appends every value in order, repeated
  ones included.\<close>

theorem select_extension_spec:
  "select_extension [] c = Normal c
   \<and> (v \<noteq> [] \<longrightarrow> v \<notin> set (m_requested_extensions c) \<longrightarrow>
        (\<exists>msg. select_extension v c = Thrown (Invalid_argument msg) c))
   \<and> (v \<noteq> [] \<longrightarrow> v \<in> set (m_requested_extensions c) \<longrightarrow>
        select_extension v c = Normal (c\<lparr>m_extensions := m_extensions c @ [v]\<rparr>))
   \<and> ([] \<notin> set vs \<longrightarrow> set vs \<subseteq> set (m_requested_extensions c) \<longrightarrow>
        run (map Select_extension vs) c = Normal (c\<lparr>m_extensions := m_extensions c @ vs\<rparr>))"
  by (simp add: select_extension_accepted run_select_extensions)
    (simp add: select_extension_def std_find_end)

text \<open>The theorem on a connection that was offered \<^verbatim>\<open>deflate\<close>, accepted twice.\<close>

theorem select_extension_spec_witness:
  "select_extension ''zip'' (new_connection\<lparr>m_requested_extensions := [''deflate'']\<rparr>) =
     Thrown (Invalid_argument ''Attempted to choose an extension not proposed by the client'')
       (new_connection\<lparr>m_requested_extensions := [''deflate'']\<rparr>)
   \<and> run [Select_extension ''deflate'', Select_extension ''deflate'']
       (new_connection\<lparr>m_requested_extensions := [''deflate'']\<rparr>) =
     Normal (new_connection\<lparr>m_requested_extensions := [''deflate''],
               m_extensions := [''deflate'', ''deflate'']\<rparr>)"
  using select_extension_spec [of "new_connection\<lparr>m_requested_extensions := [''deflate'']\<rparr>"
      "''zip''" "[''deflate'', ''deflate'']"]
  by (auto simp add: select_extension_def new_connection_def)

subsection \<open>A request the parser rejects\<close>

text \<open>C6. When \<^verbatim>\<open>parse_complete\<close> returns false, \<^verbatim>\<open>handle_read_request\<close> produces
  a response of status 400, version \<^verbatim>\<open>HTTP/1.1\<close>, an empty body and the \<^verbatim>\<open>Server\<close>
  header, serialises it and starts the write of it. The calls it makes are the error log,
  the access log and that write: neither the handler's \<^verbatim>\<open>validate\<close> nor its
  \<^verbatim>\<open>http\<close> is among them.\<close>

theorem parse_failure_response:
  assumes "\<not> fst (parse_complete env (m_request c) buf)"
  shows "\<exists>c' new. handle_read_request env False buf (c, tr) = Normal (c', tr @ new)
      \<and> new = [Elog, Alog, Async_write (response_raw env (m_response c'))]
      \<and> status_code (m_response c') = BAD_REQUEST
      \<and> status_msg (m_response c') = []
      \<and> version (m_response c') = ''HTTP/1.1''
      \<and> body (m_response c') = []
      \<and> header_values (m_response c') ''Server'' = [''WebSocket++/2011-11-18'']
      \<and> Call_validate \<notin> set new \<and> Call_http \<notin> set new"
proof -
  have bad: "BAD_REQUEST \<noteq> SWITCHING_PROTOCOLS"
    by (simp add: BAD_REQUEST_def SWITCHING_PROTOCOLS_def)
  from assms have "try_block env buf (c, tr) =
      Thrown (Http_exception ''Recieved invalid HTTP Request'' BAD_REQUEST [] [])
        (c\<lparr>m_request := snd (parse_complete env (m_request c) buf)\<rparr>, tr)"
    by (simp add: try_block_def)
  with bad show ?thesis
    by (simp add: handle_read_request_def and_then_def write_response_not_upgrade
        status_code_simps header_values_simps)
      (simp add: replace_header_def add_header_def remove_header_def set_version_def
        response_set_body_def set_status_def)
qed

text \<open>The theorem on a buffer the sample parser rejects.\<close>

theorem parse_failure_response_witness:
  "\<exists>c'. handle_read_request (sample_env (sample_request [] [] [] [])) False ''garbage''
       (new_connection, []) = Normal (c', [Elog, Alog, Async_write ''HTTP/1.1 ''])
      \<and> status_code (m_response c') = BAD_REQUEST
      \<and> header_values (m_response c') ''Server'' = [''WebSocket++/2011-11-18'']"
proof -
  let ?env = "sample_env (sample_request [] [] [] [])"
  have "\<not> fst (parse_complete ?env (m_request new_connection) ''garbage'')"
    by (simp add: sample_env_def)
  from parse_failure_response [OF this, of "[]"] obtain c' where
    "handle_read_request ?env False ''garbage'' (new_connection, []) =
       Normal (c', [] @ [Elog, Alog, Async_write (response_raw ?env (m_response c'))])"
    "status_code (m_response c') = BAD_REQUEST"
    "status_msg (m_response c') = []"
    "version (m_response c') = ''HTTP/1.1''"
    "header_values (m_response c') ''Server'' = [''WebSocket++/2011-11-18'']"
    by blast
  then show ?thesis
    by (simp add: sample_env_def)
qed

subsection \<open>Rules for sequencing\<close>

lemma holds_and_then:
  assumes "holds P r" and "\<And>x. P x \<Longrightarrow> holds Q (f x)" and "\<And>x. P x \<Longrightarrow> Q x"
  shows "holds Q (and_then r f)"
  using assms by (cases r) (simp_all add: and_then_def)

lemma surely_and_then:
  assumes "surely P r" and "\<And>x. P x \<Longrightarrow> surely Q (f x)" and "\<And>x. P x \<Longrightarrow> Q x"
  shows "surely Q (and_then r f)"
  using assms by (cases r) (simp_all add: and_then_def)

lemma surely_holds: "surely P r \<Longrightarrow> holds P r"
  by (cases r) simp_all

lemma holds_mono: "holds P r \<Longrightarrow> (\<And>x. P x \<Longrightarrow> Q x) \<Longrightarrow> holds Q r"
  by (cases r) simp_all

lemma surely_mono: "surely P r \<Longrightarrow> (\<And>x. P x \<Longrightarrow> Q x) \<Longrightarrow> surely Q r"
  by (cases r) simp_all

lemma surely_with_events:
  "surely (\<lambda>c. P (c, tr)) r \<Longrightarrow> surely P (with_events tr r)"
  by (cases r) (simp_all add: with_events_def)

lemma surely_final:
  "surely P r \<Longrightarrow> \<exists>w. final_connection r = Some (fst w) \<and> final_events r = Some (snd w) \<and> P w"
  by (cases r) auto

lemma holds_final:
  "holds P r \<Longrightarrow> final_connection r = Some c \<Longrightarrow> final_events r = Some tr \<Longrightarrow> P (c, tr)"
  by (cases r) auto

lemma final_events_defined:
  "final_connection r = Some c \<Longrightarrow> \<exists>tr. final_events r = Some tr"
  by (cases r) auto

lemma final_connection_defined:
  "final_events r = Some tr \<Longrightarrow> \<exists>c. final_connection r = Some c"
  by (cases r) auto

subsection \<open>What a hook can change\<close>

lemma same_but_negotiation_refl: "same_but_negotiation c c"
  by (simp add: same_but_negotiation_def)

lemma same_but_negotiation_trans:
  "same_but_negotiation a b \<Longrightarrow> same_but_negotiation b c \<Longrightarrow> same_but_negotiation a c"
  by (simp add: same_but_negotiation_def)

lemma call_frame: "surely (same_but_negotiation c) (call a c)"
  by (cases a)
    (simp_all add: same_but_negotiation_def add_response_header_def replace_response_header_def
      remove_response_header_def select_subprotocol_def select_extension_def set_body_def Let_def)

lemma run_frame: "surely (same_but_negotiation c) (run as c)"
proof (induction as arbitrary: c)
  case Nil
  show ?case by (simp add: same_but_negotiation_refl)
next
  case (Cons a as)
  from call_frame [of c a] show ?case
  proof (cases "call a c")
    case (Normal c1)
    with call_frame [of c a] have "same_but_negotiation c c1" by simp
    with Cons.IH [of c1] have "surely (same_but_negotiation c) (run as c1)"
      by (auto intro: surely_mono same_but_negotiation_trans)
    with Normal show ?thesis by simp
  qed simp_all
qed

lemma invoke_frame: "surely (same_but_negotiation c) (invoke h c)"
  by (simp add: invoke_def run_frame)

subsection \<open>The stages of the handshake\<close>

lemma surely_catch_clauses:
  assumes "surely P r"
    and "\<And>w resp. P w \<Longrightarrow> Q w \<and> Q ((fst w)\<lparr>m_response := resp\<rparr>, snd w @ [Elog])"
  shows "surely Q (catch_clauses r)"
proof (cases r)
  case (Thrown e w)
  with assms show ?thesis by (cases e) simp_all
qed (use assms in simp_all)

lemma holds_catch_clauses:
  assumes "holds P r"
    and "\<And>w resp. P w \<Longrightarrow> Q w \<and> Q ((fst w)\<lparr>m_response := resp\<rparr>, snd w @ [Elog])"
  shows "holds Q (catch_clauses r)"
proof (cases r)
  case (Thrown e w)
  with assms show ?thesis by (cases e) simp_all
qed (use assms in simp_all)

lemma holds_write_response:
  "holds (\<lambda>w'. same_but_negotiation (fst w) (fst w')
        \<and> m_subprotocol (fst w') = m_subprotocol (fst w)
        \<and> m_extensions (fst w') = m_extensions (fst w)
        \<and> (\<exists>raw. snd w' = snd w @ [Alog, Async_write raw]))
     (write_response env w)"
  by (simp add: write_response_def Let_def same_but_negotiation_def split: option.splits)

lemma surely_write_response:
  assumes "m_processor (fst w) \<noteq> None \<or> status_code (m_response (fst w)) \<noteq> SWITCHING_PROTOCOLS"
  shows "surely (\<lambda>w'. same_but_negotiation (fst w) (fst w')
        \<and> m_subprotocol (fst w') = m_subprotocol (fst w)
        \<and> m_extensions (fst w') = m_extensions (fst w)
        \<and> (\<exists>raw. snd w' = snd w @ [Alog, Async_write raw]))
     (write_response env w)"
  using assms
  by (auto simp add: write_response_def Let_def same_but_negotiation_def status_code_simps
      split: option.splits)

lemma surely_validate_request:
  assumes "m_processor (fst w) = Some p"
  shows "surely (\<lambda>w'. m_processor (fst w') = Some p
        \<and> (snd w' = snd w @ [Call_validate_handshake]
           \<or> snd w' = snd w @ [Call_validate_handshake, Call_validate]))
     (validate_request env w)"
proof (cases "validate_handshake p (m_request (fst w))")
  case (Some e)
  with assms show ?thesis by (simp add: validate_request_def)
next
  case None
  let ?c1 = "(fst w)\<lparr>m_origin := get_origin p (m_request (fst w))\<rparr>"
  show ?thesis
  proof (cases "get_uri p (m_request ?c1)")
    case (Inl e)
    with None assms show ?thesis by (simp add: validate_request_def Let_def)
  next
    case (Inr u)
    have "surely (same_but_negotiation (?c1\<lparr>m_uri := Some u\<rparr>))
        (invoke (validate (get_handler env)) (?c1\<lparr>m_uri := Some u\<rparr>))"
      by (rule invoke_frame)
    then have "surely (\<lambda>w'. m_processor (fst w') = Some p
        \<and> snd w' = snd w @ [Call_validate_handshake, Call_validate])
        (with_events ((snd w @ [Call_validate_handshake]) @ [Call_validate])
          (invoke (validate (get_handler env)) (?c1\<lparr>m_uri := Some u\<rparr>)))"
      using assms by (intro surely_with_events) (auto elim!: surely_mono simp: same_but_negotiation_def)
    then have "surely (\<lambda>w'. m_processor (fst w') = Some p
        \<and> (snd w' = snd w @ [Call_validate_handshake]
           \<or> snd w' = snd w @ [Call_validate_handshake, Call_validate]))
        (and_then (with_events ((snd w @ [Call_validate_handshake]) @ [Call_validate])
          (invoke (validate (get_handler env)) (?c1\<lparr>m_uri := Some u\<rparr>)))
          (\<lambda>w2. Normal ((fst w2)\<lparr>m_response :=
                     set_status_code SWITCHING_PROTOCOLS (m_response (fst w2))\<rparr>, snd w2)))"
      by (rule surely_and_then) simp_all
    with None Inr assms show ?thesis by (simp add: validate_request_def Let_def)
  qed
qed

lemma try_block_rejected:
  assumes "\<not> fst (parse_complete env (m_request c) buf)"
  shows "try_block env buf (c, tr) =
      Thrown (Http_exception ''Recieved invalid HTTP Request'' BAD_REQUEST [] [])
        (c\<lparr>m_request := snd (parse_complete env (m_request c) buf)\<rparr>, tr)"
  using assms by (simp add: try_block_def)

lemma try_block_upgrade:
  assumes "fst (parse_complete env (m_request c) buf)"
    and "ifind_first (req_header (snd (parse_complete env (m_request c) buf)) ''Upgrade'')
           ''websocket''"
  shows "try_block env buf (c, tr) =
      upgrade_request env (c\<lparr>m_request := snd (parse_complete env (m_request c) buf)\<rparr>, tr @ [Alog])"
  using assms by (simp add: try_block_def)

lemma try_block_plain:
  assumes "fst (parse_complete env (m_request c) buf)"
    and "\<not> ifind_first (req_header (snd (parse_complete env (m_request c) buf)) ''Upgrade'')
           ''websocket''"
  shows "try_block env buf (c, tr) =
      plain_request env (c\<lparr>m_request := snd (parse_complete env (m_request c) buf)\<rparr>, tr @ [Alog])"
  using assms by (simp add: try_block_def)

lemma surely_plain_request:
  "surely (\<lambda>w'. same_but_negotiation ((fst w)\<lparr>m_origin := m_origin (fst w'), m_uri := m_uri (fst w')\<rparr>) (fst w')
        \<and> snd w' = snd w @ [Call_http])
     (plain_request env w)"
proof -
  have "surely (same_but_negotiation (fst w)) (invoke (http (get_handler env)) (fst w))"
    by (rule invoke_frame)
  then have "surely (\<lambda>w1. same_but_negotiation (fst w) (fst w1) \<and> snd w1 = snd w @ [Call_http])
      (with_events (snd w @ [Call_http]) (invoke (http (get_handler env)) (fst w)))"
    by (intro surely_with_events) simp
  then show ?thesis
    unfolding plain_request_def
    by (rule surely_and_then)
      (auto simp add: same_but_negotiation_def Let_def split: sum.splits)
qed

lemma unsupported_version_thrown:
  assumes "atoi (c_str (req_header (m_request c) ''Sec-WebSocket-Version'')) \<notin> {7, 8, 13}"
  shows "\<exists>msg c'. and_then (read_version c) (create_processor env) =
        Thrown (Http_exception msg BAD_REQUEST [] []) c'
      \<and> same_but_negotiation (c\<lparr>m_version := m_version c'\<rparr>) c'"
  using assms
  by (auto simp add: read_version_def create_processor_def and_then_def Let_def
      same_but_negotiation_def)

lemmas sample_defs = sample_env_def sample_request_def sample_processor_def quiet_handler_def
  decimal_port_def new_connection_def empty_response_def

lemmas handshake_defs = handle_read_request_def try_block_def upgrade_request_def
  plain_request_def validate_request_def host_uri_def new_uri_def new_uri_port_def
  read_version_def create_processor_def and_then_def with_events_def write_response_def
  invoke_def handle_write_response_def log_open_result_def terminate_def handshake_def

lemmas response_defs = BAD_REQUEST_def SWITCHING_PROTOCOLS_def OK_def set_status_def
  set_status_code_def status_string_def response_set_body_def set_version_def
  replace_header_def add_header_def remove_header_def

lemmas string_defs = ifind_first_def to_upper_def atoi_def strtol_def int_of_long_def
  c_str_def isspace_def digits_value_def isdigit_def digit_value_def

text \<open>A version header beyond the range of \<^verbatim>\<open>int\<close> is judged by its low 32 bits:
  \<^verbatim>\<open>4294967303\<close> is taken for version 7 and answered with 101, and \<^verbatim>\<open>4294967296\<close> is
  taken for 0 and answered with 400 and no version header.\<close>

lemma version_beyond_int:
  "map_option status_code (final_response (handle_read_request
       (sample_env (sample_request ''websocket'' ''4294967303'' ''example.com'' ''/chat''))
       False ''GET /chat'' (new_connection, []))) = Some 101"
  "map_option m_version (final_connection (handle_read_request
       (sample_env (sample_request ''websocket'' ''4294967303'' ''example.com'' ''/chat''))
       False ''GET /chat'' (new_connection, []))) = Some 7"
  "map_option status_code (final_response (handle_read_request
       (sample_env (sample_request ''websocket'' ''4294967296'' ''example.com'' ''/chat''))
       False ''GET /chat'' (new_connection, []))) = Some 400"
  "map_option headers (final_response (handle_read_request
       (sample_env (sample_request ''websocket'' ''4294967296'' ''example.com'' ''/chat''))
       False ''GET /chat'' (new_connection, []))) = Some [(''Server'', ''WebSocket++/2011-11-18'')]"
  by (simp_all add: final_response_def handshake_defs sample_defs response_defs string_defs)

subsection \<open>The processor and the negotiated version\<close>

text \<open>C2. On a connection whose processor handle is null, \<^verbatim>\<open>handle_read_request\<close> sets
  the handle exactly when the read succeeded, the request parsed, its \<^verbatim>\<open>Upgrade\<close>
  header contains \<^verbatim>\<open>websocket\<close> and \<^verbatim>\<open>Sec-WebSocket-Version\<close> parses to 7, 8 or 13.
  In that case the function is defined, the handle is the new \<^verbatim>\<open>hybi\<close> processor and
  \<^verbatim>\<open>validate_handshake\<close> is among the calls made; in every other case the handle is
  still null wherever the function leaves a connection, and \<^verbatim>\<open>validate_handshake\<close> is
  not called.\<close>

theorem processor_iff_supported_version:
  assumes fresh: "m_processor c = None"
    and rq: "rq = snd (parse_complete env (m_request c) buf)"
    and sup: "supported =
      (\<not> error \<and> fst (parse_complete env (m_request c) buf)
       \<and> ifind_first (req_header rq ''Upgrade'') ''websocket''
       \<and> atoi (c_str (req_header rq ''Sec-WebSocket-Version'')) \<in> {7, 8, 13})"
    and r: "r = handle_read_request env error buf (c, tr)"
  shows "(supported \<longrightarrow>
            (\<exists>c' new. final_connection r = Some c' \<and> final_events r = Some (tr @ new)
               \<and> m_processor c' = Some (hybi env) \<and> Call_validate_handshake \<in> set new))
       \<and> (\<not> supported \<longrightarrow>
            (\<forall>c'. final_connection r = Some c' \<longrightarrow> m_processor c' = None)
          \<and> (\<forall>evs. final_events r = Some evs \<longrightarrow>
               (\<exists>new. evs = tr @ new \<and> Call_validate_handshake \<notin> set new)))"
proof (cases supported)
  case True
  let ?P = "\<lambda>w. m_processor (fst w) = Some (hybi env)
      \<and> (\<exists>new. snd w = tr @ new \<and> Call_validate_handshake \<in> set new)"
  let ?c1 = "c\<lparr>m_request := rq\<rparr>"
  from True sup have ok: "\<not> error" "fst (parse_complete env (m_request c) buf)"
      "ifind_first (req_header rq ''Upgrade'') ''websocket''"
      "atoi (c_str (req_header rq ''Sec-WebSocket-Version'')) \<in> {7, 8, 13}"
    by simp_all
  let ?v = "atoi (c_str (req_header rq ''Sec-WebSocket-Version''))"
  let ?c2 = "?c1\<lparr>m_version := ?v, m_processor := Some (hybi env)\<rparr>"
  have "and_then (read_version ?c1) (create_processor env) = Normal ?c2"
    using ok(4) by (intro read_version_supported) simp_all
  then have "try_block env buf (c, tr) = validate_request env (?c2, tr @ [Alog])"
    using ok rq by (simp add: try_block_upgrade upgrade_request_def with_events_def and_then_def)
  moreover have "surely ?P (validate_request env (?c2, tr @ [Alog]))"
    by (rule surely_mono [OF surely_validate_request [of _ "hybi env"]]) auto
  ultimately have "surely ?P (try_block env buf (c, tr))" by simp
  then have "surely ?P (catch_clauses (try_block env buf (c, tr)))"
    by (rule surely_catch_clauses) auto
  then have "surely ?P (and_then (catch_clauses (try_block env buf (c, tr))) (write_response env))"
  proof (rule surely_and_then)
    fix w :: world assume w: "?P w"
    then have "m_processor (fst w) \<noteq> None" by simp
    then have "surely (\<lambda>w'. same_but_negotiation (fst w) (fst w')
        \<and> m_subprotocol (fst w') = m_subprotocol (fst w)
        \<and> m_extensions (fst w') = m_extensions (fst w)
        \<and> (\<exists>raw. snd w' = snd w @ [Alog, Async_write raw])) (write_response env w)"
      by (intro surely_write_response) simp
    then show "surely ?P (write_response env w)"
      by (rule surely_mono) (use w in \<open>auto simp add: same_but_negotiation_def\<close>)
  qed simp
  with ok(1) r have "surely ?P r" by (simp add: handle_read_request_def)
  from surely_final [OF this] True show ?thesis by auto
next
  case False
  let ?P = "\<lambda>w. m_processor (fst w) = None
      \<and> (\<exists>new. snd w = tr @ new \<and> Call_validate_handshake \<notin> set new)"
  let ?c1 = "c\<lparr>m_request := rq\<rparr>"
  have "holds ?P r"
  proof (cases error)
    case True
    with r fresh show ?thesis by (simp add: handle_read_request_def terminate_def)
  next
    case no_error: False
    have "holds ?P (try_block env buf (c, tr))"
    proof (cases "fst (parse_complete env (m_request c) buf)")
      case False
      with fresh show ?thesis by (simp add: try_block_rejected)
    next
      case parsed: True
      show ?thesis
      proof (cases "ifind_first (req_header rq ''Upgrade'') ''websocket''")
        case True
        with \<open>\<not> supported\<close> sup no_error parsed
        have "atoi (c_str (req_header (m_request ?c1) ''Sec-WebSocket-Version'')) \<notin> {7, 8, 13}"
          by simp
        from unsupported_version_thrown [OF this, of env] obtain msg c' where
          "and_then (read_version ?c1) (create_processor env) =
             Thrown (Http_exception msg BAD_REQUEST [] []) c'"
          and "same_but_negotiation (?c1\<lparr>m_version := m_version c'\<rparr>) c'"
          by blast
        with True parsed rq fresh show ?thesis
          by (simp add: try_block_upgrade upgrade_request_def with_events_def and_then_def
              same_but_negotiation_def)
      next
        case False
        have "holds ?P (plain_request env (?c1, tr @ [Alog]))"
          by (rule holds_mono [OF surely_holds [OF surely_plain_request]])
            (use fresh in \<open>auto simp add: same_but_negotiation_def\<close>)
        with False parsed rq show ?thesis by (simp add: try_block_plain)
      qed
    qed
    then have "holds ?P (catch_clauses (try_block env buf (c, tr)))"
      by (rule holds_catch_clauses) auto
    then have "holds ?P (and_then (catch_clauses (try_block env buf (c, tr))) (write_response env))"
    proof (rule holds_and_then)
      fix w :: world assume w: "?P w"
      show "holds ?P (write_response env w)"
        by (rule holds_mono [OF holds_write_response])
          (use w in \<open>auto simp add: same_but_negotiation_def\<close>)
    qed simp
    with no_error r show ?thesis by (simp add: handle_read_request_def)
  qed
  with False show ?thesis by (cases r) auto
qed

text \<open>The theorem at version 13, where the processor is set, and at version 99, where it is not.\<close>

theorem processor_iff_supported_version_witness:
  "(\<exists>c' new. final_connection (handle_read_request
         (sample_env (sample_request ''websocket'' ''13'' ''example.com'' ''/chat''))
         False ''GET /chat'' (new_connection, [])) = Some c'
      \<and> final_events (handle_read_request
         (sample_env (sample_request ''websocket'' ''13'' ''example.com'' ''/chat''))
         False ''GET /chat'' (new_connection, [])) = Some ([] @ new)
      \<and> m_processor c' = Some sample_processor \<and> Call_validate_handshake \<in> set new)
   \<and> map_option m_processor (final_connection (handle_read_request
         (sample_env (sample_request ''websocket'' ''99'' ''example.com'' ''/chat''))
         False ''GET /chat'' (new_connection, []))) = Some None"
proof -
  let ?e13 = "sample_env (sample_request ''websocket'' ''13'' ''example.com'' ''/chat'')"
  let ?e99 = "sample_env (sample_request ''websocket'' ''99'' ''example.com'' ''/chat'')"
  have a13: "atoi (c_str ''13'') = 13" and a99: "atoi (c_str ''99'') = 99"
    by (simp_all add: atoi_def strtol_def int_of_long_def c_str_def isspace_def
        digits_value_def isdigit_def digit_value_def)
  have up: "ifind_first ''websocket'' ''websocket''"
    by (simp add: ifind_first_def to_upper_def)
  have fresh: "m_processor new_connection = None"
    by (simp add: new_connection_def)
  have "hybi ?e13 = sample_processor" by (simp add: sample_env_def)
  with processor_iff_supported_version
    [where c = new_connection and env = ?e13 and buf = "''GET /chat''" and error = False
      and tr = "[]" and supported = True, OF fresh refl _ refl]
  have first: "\<exists>c' new. final_connection (handle_read_request ?e13 False ''GET /chat''
        (new_connection, [])) = Some c'
      \<and> final_events (handle_read_request ?e13 False ''GET /chat'' (new_connection, [])) =
          Some ([] @ new)
      \<and> m_processor c' = Some sample_processor \<and> Call_validate_handshake \<in> set new"
    using a13 up by (simp add: sample_env_def sample_request_def)
  from processor_iff_supported_version
    [where c = new_connection and env = ?e99 and buf = "''GET /chat''" and error = False
      and tr = "[]" and supported = False, OF fresh refl _ refl]
  have "\<forall>c'. final_connection (handle_read_request ?e99 False ''GET /chat''
        (new_connection, [])) = Some c' \<longrightarrow> m_processor c' = None"
    using a99 up by (simp add: sample_env_def sample_request_def)
  moreover have "final_connection (handle_read_request ?e99 False ''GET /chat''
        (new_connection, [])) \<noteq> None"
    using a99 up
    by (simp add: handle_read_request_def try_block_def upgrade_request_def
      read_version_def create_processor_def and_then_def with_events_def write_response_def
      sample_env_def sample_request_def new_connection_def
      empty_response_def BAD_REQUEST_def SWITCHING_PROTOCOLS_def set_status_def
      response_set_body_def set_version_def replace_header_def add_header_def remove_header_def)
  ultimately have "map_option m_processor (final_connection (handle_read_request ?e99 False
        ''GET /chat'' (new_connection, []))) = Some None"
    by auto
  with first show ?thesis by blast
qed

subsection \<open>The URI of a plain HTTP request\<close>

lemma host_uri_shape:
  assumes "host_uri env rq = Inr u" and "h = req_header rq ''Host''"
  shows "resource u = req_uri rq \<and> secure u = is_secure env
     \<and> (case string_find h CHR '':'' of
          None \<Rightarrow> host u = h \<and> port u = default_port env (is_secure env)
        | Some found \<Rightarrow>
            host u = take found h \<and> port_from_string env (drop (Suc found) h) = Some (port u))"
  using assms
  by (auto simp add: host_uri_def new_uri_def new_uri_port_def Let_def
      split: option.splits)

lemma holds_plain_request_uri:
  "holds (\<lambda>w'. m_uri (fst w') = m_uri (fst w)
        \<or> (\<exists>u. host_uri env (m_request (fst w)) = Inr u \<and> m_uri (fst w') = Some u))
     (plain_request env w)"
proof -
  have "surely (same_but_negotiation (fst w)) (invoke (http (get_handler env)) (fst w))"
    by (rule invoke_frame)
  then have "holds (\<lambda>w1. same_but_negotiation (fst w) (fst w1))
      (with_events (snd w @ [Call_http]) (invoke (http (get_handler env)) (fst w)))"
    by (intro surely_holds surely_with_events) simp
  then show ?thesis
    unfolding plain_request_def
    by (rule holds_and_then)
      (auto simp add: same_but_negotiation_def Let_def split: sum.splits)
qed

lemma plain_request_builds_uri:
  assumes "invoke (http (get_handler env)) c = Normal c1"
    and "host_uri env (m_request c) = Inr u"
  shows "\<exists>c'. plain_request env (c, tr) = Normal (c', tr @ [Call_http])
      \<and> m_uri c' = Some u \<and> status_code (m_response c') = OK"
proof -
  from invoke_frame [of c "http (get_handler env)"] assms(1)
  have "m_request c1 = m_request c" by (simp add: same_but_negotiation_def)
  with assms show ?thesis
    by (simp add: plain_request_def with_events_def and_then_def Let_def status_code_simps)
qed

text \<open>C5. For a parsed request without \<^verbatim>\<open>websocket\<close> in its \<^verbatim>\<open>Upgrade\<close> header, on a
  connection whose URI is still null: the URI that \<^verbatim>\<open>handle_read_request\<close> leaves has the
  request target as its resource; when the \<^verbatim>\<open>Host\<close> header has a colon, its host is the
  part before the first colon and its port is parsed from the part after it; when there
  is no colon, its host is the whole header and its port is the default port.\<close>

theorem host_header_uri:
  assumes parsed: "parse_complete env (m_request c) buf = (True, rq)"
    and plain: "\<not> ifind_first (req_header rq ''Upgrade'') ''websocket''"
    and fresh: "m_uri c = None"
    and final: "final_connection (handle_read_request env False buf (c, tr)) = Some c'"
    and built: "m_uri c' = Some u"
    and h: "h = req_header rq ''Host''"
  shows "resource u = req_uri rq \<and> secure u = is_secure env
     \<and> (case string_find h CHR '':'' of
          None \<Rightarrow> host u = h \<and> port u = default_port env (is_secure env)
        | Some found \<Rightarrow>
            host u = take found h \<and> port_from_string env (drop (Suc found) h) = Some (port u))"
proof -
  let ?P = "\<lambda>w'. m_uri (fst w') = None
      \<or> (\<exists>u. host_uri env rq = Inr u \<and> m_uri (fst w') = Some u)"
  have "holds ?P (plain_request env (c\<lparr>m_request := rq\<rparr>, tr @ [Alog]))"
    by (rule holds_mono [OF holds_plain_request_uri]) (use fresh in auto)
  then have "holds ?P (try_block env buf (c, tr))"
    using parsed plain by (simp add: try_block_plain)
  then have "holds ?P (catch_clauses (try_block env buf (c, tr)))"
    by (rule holds_catch_clauses) auto
  then have "holds ?P (and_then (catch_clauses (try_block env buf (c, tr))) (write_response env))"
  proof (rule holds_and_then)
    fix w :: world assume w: "?P w"
    show "holds ?P (write_response env w)"
      by (rule holds_mono [OF holds_write_response])
        (use w in \<open>auto simp add: same_but_negotiation_def\<close>)
  qed simp
  then have "holds ?P (handle_read_request env False buf (c, tr))"
    by (simp add: handle_read_request_def)
  with final built have "host_uri env rq = Inr u"
    by (cases "handle_read_request env False buf (c, tr)") auto
  then show ?thesis using h by (rule host_uri_shape)
qed

text \<open>The theorem at \<^verbatim>\<open>Host: example.com:9000\<close> and at \<^verbatim>\<open>Host: example.com\<close>, both with
  the target \<^verbatim>\<open>/chat\<close>.\<close>

theorem host_header_uri_witness:
  "map_option m_uri (final_connection (handle_read_request
       (sample_env (sample_request [] [] ''example.com:9000'' ''/chat''))
       False ''GET /chat'' (new_connection, []))) =
     Some (Some \<lparr>secure = False, host = ''example.com'', port = 9000, resource = ''/chat''\<rparr>)
   \<and> string_find ''example.com:9000'' CHR '':'' = Some 11
   \<and> take 11 ''example.com:9000'' = ''example.com''
   \<and> decimal_port (drop (Suc 11) ''example.com:9000'') = Some 9000
   \<and> map_option m_uri (final_connection (handle_read_request
       (sample_env (sample_request [] [] ''example.com'' ''/chat''))
       False ''GET /chat'' (new_connection, []))) =
     Some (Some \<lparr>secure = False, host = ''example.com'', port = 80, resource = ''/chat''\<rparr>)"
proof -
  let ?rq1 = "sample_request [] [] ''example.com:9000'' ''/chat''"
  let ?rq2 = "sample_request [] [] ''example.com'' ''/chat''"
  let ?r1 = "handle_read_request (sample_env ?rq1) False ''GET /chat'' (new_connection, [])"
  let ?r2 = "handle_read_request (sample_env ?rq2) False ''GET /chat'' (new_connection, [])"
  have plain: "\<not> ifind_first [] ''websocket''" by (simp add: ifind_first_def)
  have fresh: "m_uri new_connection = None" by (simp add: new_connection_def)
  have find1: "string_find ''example.com:9000'' CHR '':'' = Some 11" by simp
  have find2: "string_find ''example.com'' CHR '':'' = None" by simp
  obtain c1 u1 where c1: "final_connection ?r1 = Some c1" and u1: "m_uri c1 = Some u1"
    by (simp add: handshake_defs sample_defs response_defs string_defs)
  obtain c2 u2 where c2: "final_connection ?r2 = Some c2" and u2: "m_uri c2 = Some u2"
    by (simp add: handshake_defs sample_defs response_defs string_defs)
  from host_header_uri [where env = "sample_env ?rq1" and c = new_connection
      and buf = "''GET /chat''" and rq = ?rq1 and tr = "[]" and h = "''example.com:9000''",
      OF _ _ fresh c1 u1]
  have "resource u1 = ''/chat'' \<and> secure u1 = False \<and> host u1 = ''example.com''
      \<and> decimal_port ''9000'' = Some (port u1)"
    using plain find1 by (simp add: sample_env_def sample_request_def)
  moreover have "decimal_port ''9000'' = Some 9000"
    by (simp add: decimal_port_def digits_value_def isdigit_def digit_value_def)
  ultimately have "u1 = \<lparr>secure = False, host = ''example.com'', port = 9000, resource = ''/chat''\<rparr>"
    by (cases u1) simp
  with c1 u1 have first: "map_option m_uri (final_connection ?r1) =
      Some (Some \<lparr>secure = False, host = ''example.com'', port = 9000, resource = ''/chat''\<rparr>)"
    by simp
  from host_header_uri [where env = "sample_env ?rq2" and c = new_connection
      and buf = "''GET /chat''" and rq = ?rq2 and tr = "[]" and h = "''example.com''",
      OF _ _ fresh c2 u2]
  have "resource u2 = ''/chat'' \<and> secure u2 = False \<and> host u2 = ''example.com''
      \<and> port u2 = 80"
    using plain find2 by (simp add: sample_env_def sample_request_def)
  then have "u2 = \<lparr>secure = False, host = ''example.com'', port = 80, resource = ''/chat''\<rparr>"
    by (cases u2) simp
  with c2 u2 have second: "map_option m_uri (final_connection ?r2) =
      Some (Some \<lparr>secure = False, host = ''example.com'', port = 80, resource = ''/chat''\<rparr>)"
    by simp
  from first second find1 \<open>decimal_port ''9000'' = Some 9000\<close> show ?thesis by simp
qed

subsection \<open>After the write\<close>

lemma handle_write_response_null_uri:
  "m_uri c = None \<Longrightarrow> handle_write_response env False (c, tr) = Undefined"
  by (simp add: handle_write_response_def log_open_result_def and_then_def)

lemma handle_write_response_closes:
  assumes "m_uri c = Some u" and "status_code (m_response c) \<noteq> SWITCHING_PROTOCOLS"
  shows "\<exists>evs. handle_write_response env False (c, tr) =
        Normal (c\<lparr>m_state := CLOSED\<rparr>, tr @ evs @ [Terminate True])
      \<and> Call_on_open \<notin> set evs"
proof (cases "m_version c = - 1")
  case True
  with assms have "handle_write_response env False (c, tr) =
      Normal (c\<lparr>m_state := CLOSED\<rparr>, tr @ [Alog] @ [Terminate True])"
    by (simp add: handle_write_response_def log_open_result_def and_then_def terminate_def)
  then show ?thesis by (intro exI [of _ "[Alog]"]) simp
next
  case False
  with assms have "handle_write_response env False (c, tr) =
      Normal (c\<lparr>m_state := CLOSED\<rparr>, tr @ [Alog, Elog] @ [Terminate True])"
    by (simp add: handle_write_response_def log_open_result_def and_then_def terminate_def)
  then show ?thesis by (intro exI [of _ "[Alog, Elog]"]) simp
qed

lemma handle_write_response_opens:
  assumes "m_uri c = Some u" and "status_code (m_response c) = SWITCHING_PROTOCOLS"
  shows "surely (\<lambda>w'. m_state (fst w') = OPEN
        \<and> (snd w' = tr @ [Alog, Call_on_open, Handle_read_frame]
           \<or> snd w' = tr @ [Alog, Call_on_open]))
     (handle_write_response env False (c, tr))"
proof -
  have "surely (same_but_negotiation (c\<lparr>m_state := OPEN\<rparr>))
      (invoke (on_open (get_handler env)) (c\<lparr>m_state := OPEN\<rparr>))"
    by (rule invoke_frame)
  then have "surely (\<lambda>w2. m_state (fst w2) = OPEN \<and> snd w2 = tr @ [Alog, Call_on_open])
      (with_events ((tr @ [Alog]) @ [Call_on_open])
        (invoke (on_open (get_handler env)) (c\<lparr>m_state := OPEN\<rparr>)))"
    by (intro surely_with_events) (auto elim!: surely_mono simp: same_but_negotiation_def)
  then have "surely (\<lambda>w'. m_state (fst w') = OPEN
        \<and> (snd w' = tr @ [Alog, Call_on_open, Handle_read_frame]
           \<or> snd w' = tr @ [Alog, Call_on_open]))
      (and_then (with_events ((tr @ [Alog]) @ [Call_on_open])
          (invoke (on_open (get_handler env)) (c\<lparr>m_state := OPEN\<rparr>)))
        (\<lambda>w2. Normal (fst w2, snd w2 @ [Handle_read_frame])))"
    by (rule surely_and_then) simp_all
  with assms show ?thesis
    by (simp add: handle_write_response_def log_open_result_def and_then_def)
qed

text \<open>C7, at an input where the code departs from it. A request with the unsupported version 99
  is answered with status 400 while the URI handle is still null; when the write of that
  response completes without error, \<^verbatim>\<open>handle_write_response\<close> calls
  \<^verbatim>\<open>log_open_result\<close> first, which dereferences the null handle, so
  \<^verbatim>\<open>terminate(true)\<close> is never reached. With a URI in place the function does what C7
  says (\<open>handle_write_response_closes\<close>, \<open>handle_write_response_opens\<close>).\<close>

theorem rejected_upgrade_dereferences_null_uri:
  "map_option status_code (final_response (handle_read_request
       (sample_env (sample_request ''websocket'' ''99'' ''example.com'' ''/chat''))
       False ''GET /chat'' (new_connection, []))) = Some 400
   \<and> map_option m_uri (final_connection (handle_read_request
       (sample_env (sample_request ''websocket'' ''99'' ''example.com'' ''/chat''))
       False ''GET /chat'' (new_connection, []))) = Some None
   \<and> handshake (sample_env (sample_request ''websocket'' ''99'' ''example.com'' ''/chat''))
       False ''GET /chat'' False (new_connection, []) = Undefined"
  by (simp add: final_response_def handshake_defs sample_defs response_defs string_defs)

text \<open>C10. On a connection whose URI handle is null, as the constructor leaves it, a request
  that the parser rejects makes \<^verbatim>\<open>handle_read_request\<close> return normally with the
  handle still null; \<^verbatim>\<open>log_open_result\<close> on that connection dereferences the null
  handle, and so does \<^verbatim>\<open>handle_write_response\<close> when the write has succeeded: the
  handshake as a whole is undefined.\<close>

theorem null_uri_dereference_reachable:
  assumes "\<not> fst (parse_complete env (m_request c) buf)" and "m_uri c = None"
  shows "\<exists>w1. handle_read_request env False buf (c, tr) = Normal w1
      \<and> m_uri (fst w1) = None
      \<and> log_open_result w1 = Undefined
      \<and> handle_write_response env False w1 = Undefined
      \<and> handshake env False buf False (c, tr) = Undefined"
proof -
  have bad: "BAD_REQUEST \<noteq> SWITCHING_PROTOCOLS"
    by (simp add: BAD_REQUEST_def SWITCHING_PROTOCOLS_def)
  from assms bad show ?thesis
    by (simp add: handshake_def handle_read_request_def try_block_rejected and_then_def
        write_response_not_upgrade status_code_simps log_open_result_def
        handle_write_response_def)
qed

text \<open>The theorem on a new connection and a buffer the sample parser rejects.\<close>

theorem null_uri_dereference_reachable_witness:
  "\<exists>w1. handle_read_request (sample_env (sample_request [] [] [] [])) False ''garbage''
        (new_connection, []) = Normal w1
      \<and> m_uri (fst w1) = None
      \<and> log_open_result w1 = Undefined
      \<and> handle_write_response (sample_env (sample_request [] [] [] [])) False w1 = Undefined
      \<and> handshake (sample_env (sample_request [] [] [] [])) False ''garbage'' False
          (new_connection, []) = Undefined"
  using null_uri_dereference_reachable [of "sample_env (sample_request [] [] [] [])"
      new_connection "''garbage''" "[]"]
  by (simp add: sample_env_def new_connection_def)

subsection \<open>The headers of the upgrade response\<close>

text \<open>C9. When the status is 101 and the processor is set, \<^verbatim>\<open>write_response\<close> returns
  normally. If a subprotocol is selected, the response carries \<^verbatim>\<open>Sec-WebSocket-Protocol\<close>
  with exactly that value; if none is selected, \<^verbatim>\<open>write_response\<close> leaves that header as
  the processor returned it, so that, when the processor returned none, the header is
  present exactly when a subprotocol is selected. \<^verbatim>\<open>Sec-WebSocket-Extensions\<close> is left as
  the processor returned it, and the response and the bytes written are the same
  whatever the list of accepted extensions is.\<close>

theorem write_response_headers:
  assumes status: "status_code (m_response c) = SWITCHING_PROTOCOLS"
    and processor: "m_processor c = Some p"
    and r1: "r1 = handshake_response p (m_request c) (set_version ''HTTP/1.1'' (m_response c))"
  shows "\<exists>c' raw. write_response env (c, tr) = Normal (c', tr @ [Alog, Async_write raw])
      \<and> header_values (m_response c') ''Sec-WebSocket-Protocol'' =
          (if m_subprotocol c \<noteq> [] then [m_subprotocol c]
           else header_values r1 ''Sec-WebSocket-Protocol'')
      \<and> (header_values r1 ''Sec-WebSocket-Protocol'' = [] \<longrightarrow>
           (header_values (m_response c') ''Sec-WebSocket-Protocol'' \<noteq> []) = (m_subprotocol c \<noteq> []))
      \<and> header_values (m_response c') ''Sec-WebSocket-Extensions'' =
          header_values r1 ''Sec-WebSocket-Extensions''
      \<and> (\<forall>exts. \<exists>c''. write_response env (c\<lparr>m_extensions := exts\<rparr>, tr) =
            Normal (c'', tr @ [Alog, Async_write raw]) \<and> m_response c'' = m_response c')"
  using assms
  by (simp add: write_response_def Let_def status_code_simps header_values_simps)

text \<open>The theorem on a connection with the subprotocol \<^verbatim>\<open>chat\<close> selected and the
  extension \<^verbatim>\<open>deflate\<close> accepted.\<close>

theorem write_response_headers_witness:
  "\<exists>c' raw. write_response (sample_env (sample_request ''websocket'' ''13'' ''h'' ''/''))
       (new_connection\<lparr>m_processor := Some sample_processor,
          m_response := set_status_code SWITCHING_PROTOCOLS empty_response,
          m_subprotocol := ''chat'', m_extensions := [''deflate'']\<rparr>, []) =
       Normal (c', [] @ [Alog, Async_write raw])
     \<and> header_values (m_response c') ''Sec-WebSocket-Protocol'' = [''chat'']
     \<and> header_values (m_response c') ''Sec-WebSocket-Extensions'' = []"
proof -
  let ?env = "sample_env (sample_request ''websocket'' ''13'' ''h'' ''/'')"
  let ?c = "new_connection\<lparr>m_processor := Some sample_processor,
      m_response := set_status_code SWITCHING_PROTOCOLS empty_response,
      m_subprotocol := ''chat'', m_extensions := [''deflate'']\<rparr>"
  let ?r1 = "handshake_response sample_processor (m_request ?c)
      (set_version ''HTTP/1.1'' (m_response ?c))"
  have status: "status_code (m_response ?c) = SWITCHING_PROTOCOLS"
    by (simp add: status_code_simps)
  have processor: "m_processor ?c = Some sample_processor"
    by simp
  from write_response_headers [OF status processor refl, of ?env "[]"]
  obtain c' raw where
    "write_response ?env (?c, []) = Normal (c', [] @ [Alog, Async_write raw])"
    "header_values (m_response c') ''Sec-WebSocket-Protocol'' =
       (if m_subprotocol ?c \<noteq> [] then [m_subprotocol ?c]
        else header_values ?r1 ''Sec-WebSocket-Protocol'')"
    "header_values (m_response c') ''Sec-WebSocket-Extensions'' =
       header_values ?r1 ''Sec-WebSocket-Extensions''"
    by blast
  moreover have "header_values ?r1 ''Sec-WebSocket-Extensions'' = []"
    by (simp add: sample_processor_def header_values_simps)
      (simp add: header_values_def empty_response_def)
  ultimately show ?thesis by auto
qed

subsection \<open>Who writes the negotiated subprotocol and extensions\<close>

lemma call_keeps_negotiation:
  "\<not> selects a \<Longrightarrow> surely (\<lambda>c'. negotiation c' = negotiation c) (call a c)"
  by (cases a)
    (simp_all add: negotiation_def add_response_header_def replace_response_header_def
      remove_response_header_def set_body_def)

lemma call_nothing_offered:
  "nothing_offered c \<Longrightarrow> surely nothing_offered (call a c)"
  by (cases a)
    (simp_all add: nothing_offered_def negotiation_def add_response_header_def
      replace_response_header_def remove_response_header_def set_body_def
      select_subprotocol_def select_extension_def)

lemma run_invariant:
  assumes "\<And>c0 a. a \<in> set as \<Longrightarrow> P c0 \<Longrightarrow> surely P (call a c0)" and "P c"
  shows "surely P (run as c)"
  using assms
proof (induction as arbitrary: c)
  case Nil
  then show ?case by simp
next
  case (Cons a as)
  from Cons.prems have step: "surely P (call a c)" by simp
  show ?case
  proof (cases "call a c")
    case (Normal c1)
    with step have "P c1" by simp
    with Cons.prems(1) have "surely P (run as c1)"
      by (intro Cons.IH) simp_all
    with Normal show ?thesis by simp
  next
    case (Thrown e c1)
    with step show ?thesis by simp
  next
    case Undefined
    with step show ?thesis by simp
  qed
qed

lemma invoke_keeps_negotiation:
  assumes "\<not> list_ex selects (h c)" and "negotiation c = n"
  shows "surely (\<lambda>c'. negotiation c' = n) (invoke h c)"
  unfolding invoke_def
proof (rule run_invariant)
  fix c0 a assume "a \<in> set (h c)" and c0: "negotiation c0 = n"
  with assms(1) have "\<not> selects a" by (auto simp add: list_ex_iff)
  from call_keeps_negotiation [OF this, of c0] c0
  show "surely (\<lambda>c'. negotiation c' = n) (call a c0)" by simp
qed (rule assms(2))

lemma invoke_nothing_offered:
  assumes "negotiation c = ([], [], [], [])"
  shows "surely (\<lambda>c'. negotiation c' = ([], [], [], [])) (invoke h c)"
  unfolding invoke_def
proof (rule run_invariant)
  fix c0 a assume "negotiation c0 = ([], [], [], [])"
  then have "nothing_offered c0" by (simp add: nothing_offered_def)
  from call_nothing_offered [OF this, of a]
  show "surely (\<lambda>c'. negotiation c' = ([], [], [], [])) (call a c0)"
    by (simp add: nothing_offered_def [abs_def])
qed (rule assms)

text \<open>The steps of the handshake, for hooks that keep the negotiation at \<open>n\<close>.\<close>

lemma select_processor_negotiation:
  "holds (\<lambda>c'. negotiation c' = negotiation c)
     (and_then (read_version c) (create_processor env))"
  by (simp add: negotiation_def read_version_def create_processor_def and_then_def Let_def)

lemma validate_request_negotiation:
  assumes hook: "\<And>c0. negotiation c0 = n \<Longrightarrow>
      surely (\<lambda>c'. negotiation c' = n) (invoke (validate (get_handler env)) c0)"
    and w: "negotiation (fst w) = n"
  shows "holds (\<lambda>w'. negotiation (fst w') = n) (validate_request env w)"
proof (cases "m_processor (fst w)")
  case None
  then show ?thesis by (simp add: validate_request_def)
next
  case (Some p)
  show ?thesis
  proof (cases "validate_handshake p (m_request (fst w))")
    case (Some e)
    with \<open>m_processor (fst w) = Some p\<close> w show ?thesis
      by (simp add: validate_request_def Let_def)
  next
    case None
    let ?c1 = "(fst w)\<lparr>m_origin := get_origin p (m_request (fst w))\<rparr>"
    have c1: "negotiation ?c1 = n"
      using w by (simp add: negotiation_def)
    show ?thesis
    proof (cases "get_uri p (m_request ?c1)")
      case (Inl e)
      with None \<open>m_processor (fst w) = Some p\<close> c1 show ?thesis
        by (simp add: validate_request_def Let_def)
    next
      case (Inr u)
      let ?c2 = "?c1\<lparr>m_uri := Some u\<rparr>"
      let ?Q = "\<lambda>w'. negotiation (fst w') = n"
      have "negotiation ?c2 = n"
        using w by (simp add: negotiation_def)
      then have "surely (\<lambda>c'. ?Q (c', (snd w @ [Call_validate_handshake]) @ [Call_validate]))
          (invoke (validate (get_handler env)) ?c2)"
        using hook [of ?c2] by simp
      then have "holds ?Q (with_events ((snd w @ [Call_validate_handshake]) @ [Call_validate])
          (invoke (validate (get_handler env)) ?c2))"
        by (intro surely_holds surely_with_events)
      then have "holds ?Q
        (and_then (with_events ((snd w @ [Call_validate_handshake]) @ [Call_validate])
            (invoke (validate (get_handler env)) ?c2))
          (\<lambda>w2. Normal ((fst w2)\<lparr>m_response :=
                     set_status_code SWITCHING_PROTOCOLS (m_response (fst w2))\<rparr>, snd w2)))"
        by (rule holds_and_then) (simp_all add: negotiation_def)
      with None Inr \<open>m_processor (fst w) = Some p\<close> show ?thesis
        by (simp add: validate_request_def Let_def)
    qed
  qed
qed

lemma upgrade_request_negotiation:
  assumes hook: "\<And>c0. negotiation c0 = n \<Longrightarrow>
      surely (\<lambda>c'. negotiation c' = n) (invoke (validate (get_handler env)) c0)"
    and w: "negotiation (fst w) = n"
  shows "holds (\<lambda>w'. negotiation (fst w') = n) (upgrade_request env w)"
proof -
  let ?Q = "\<lambda>w'. negotiation (fst w') = n"
  have "holds ?Q (with_events (snd w) (and_then (read_version (fst w)) (create_processor env)))"
    using select_processor_negotiation [of "fst w" env] w
    by (cases "and_then (read_version (fst w)) (create_processor env)")
      (simp_all add: with_events_def)
  then show ?thesis
    unfolding upgrade_request_def
  proof (rule holds_and_then)
    fix x :: world assume "?Q x"
    then show "holds ?Q (validate_request env x)"
      by (intro validate_request_negotiation hook)
  qed simp
qed

lemma plain_request_negotiation:
  assumes hook: "\<And>c0. negotiation c0 = n \<Longrightarrow>
      surely (\<lambda>c'. negotiation c' = n) (invoke (http (get_handler env)) c0)"
    and w: "negotiation (fst w) = n"
  shows "holds (\<lambda>w'. negotiation (fst w') = n) (plain_request env w)"
proof -
  let ?Q = "\<lambda>w'. negotiation (fst w') = n"
  from hook [OF w]
  have "surely (\<lambda>c'. ?Q (c', snd w @ [Call_http])) (invoke (http (get_handler env)) (fst w))"
    by simp
  then have "holds ?Q (with_events (snd w @ [Call_http]) (invoke (http (get_handler env)) (fst w)))"
    by (intro surely_holds surely_with_events)
  then show ?thesis
    unfolding plain_request_def
    by (rule holds_and_then) (simp_all add: negotiation_def Let_def split: sum.splits)
qed

lemma handle_read_request_negotiation:
  assumes validate: "\<And>c0. negotiation c0 = n \<Longrightarrow>
      surely (\<lambda>c'. negotiation c' = n) (invoke (validate (get_handler env)) c0)"
    and http: "\<And>c0. negotiation c0 = n \<Longrightarrow>
      surely (\<lambda>c'. negotiation c' = n) (invoke (http (get_handler env)) c0)"
    and w: "negotiation (fst w) = n"
  shows "holds (\<lambda>w'. negotiation (fst w') = n) (handle_read_request env error buf w)"
proof (cases error)
  case True
  with w show ?thesis by (simp add: handle_read_request_def terminate_def negotiation_def)
next
  case False
  let ?Q = "\<lambda>w'. negotiation (fst w') = n"
  let ?c1 = "(fst w)\<lparr>m_request := snd (parse_complete env (m_request (fst w)) buf)\<rparr>"
  have c1: "negotiation ?c1 = n"
    using w by (simp add: negotiation_def)
  have "holds ?Q (upgrade_request env (?c1, snd w @ [Alog]))"
    by (rule upgrade_request_negotiation [OF validate]) (simp_all add: c1)
  moreover have "holds ?Q (plain_request env (?c1, snd w @ [Alog]))"
    by (rule plain_request_negotiation [OF http]) (simp_all add: c1)
  ultimately have "holds ?Q (try_block env buf w)"
    using c1 by (simp add: try_block_def Let_def)
  then have "holds ?Q (catch_clauses (try_block env buf w))"
    by (rule holds_catch_clauses) (simp add: negotiation_def)
  then have "holds ?Q (and_then (catch_clauses (try_block env buf w)) (write_response env))"
  proof (rule holds_and_then)
    fix x :: world assume "?Q x"
    then show "holds ?Q (write_response env x)"
      by (intro holds_mono [OF holds_write_response])
        (simp add: negotiation_def same_but_negotiation_def)
  qed simp
  with False show ?thesis by (simp add: handle_read_request_def)
qed

lemma handle_write_response_negotiation:
  assumes on_open: "\<And>c0. negotiation c0 = n \<Longrightarrow>
      surely (\<lambda>c'. negotiation c' = n) (invoke (on_open (get_handler env)) c0)"
    and w: "negotiation (fst w) = n"
  shows "holds (\<lambda>w'. negotiation (fst w') = n) (handle_write_response env error w)"
proof (cases error)
  case True
  with w show ?thesis by (simp add: handle_write_response_def terminate_def negotiation_def)
next
  case False
  let ?Q = "\<lambda>w'. negotiation (fst w') = n"
  have "holds (\<lambda>w1. fst w1 = fst w) (log_open_result w)"
    by (simp add: log_open_result_def split: option.splits)
  then have "holds ?Q (and_then (log_open_result w)
      (\<lambda>w1.
         if status_code (m_response (fst w1)) \<noteq> SWITCHING_PROTOCOLS
         then
           (if m_version (fst w1) = - 1 then Normal (terminate True w1)
            else Normal (terminate True (fst w1, snd w1 @ [Elog])))
         else
           and_then
             (with_events (snd w1 @ [Call_on_open])
                (invoke (on_open (get_handler env)) ((fst w1)\<lparr>m_state := OPEN\<rparr>)))
             (\<lambda>w2. Normal (fst w2, snd w2 @ [Handle_read_frame]))))"
  proof (rule holds_and_then)
    fix w1 :: world assume w1: "fst w1 = fst w"
    have "negotiation ((fst w1)\<lparr>m_state := OPEN\<rparr>) = n"
      using w w1 by (simp add: negotiation_def)
    from on_open [OF this]
    have "surely (\<lambda>c'. ?Q (c', snd w1 @ [Call_on_open]))
        (invoke (on_open (get_handler env)) ((fst w1)\<lparr>m_state := OPEN\<rparr>))"
      by simp
    then have "holds ?Q (with_events (snd w1 @ [Call_on_open])
        (invoke (on_open (get_handler env)) ((fst w1)\<lparr>m_state := OPEN\<rparr>)))"
      by (intro surely_holds surely_with_events)
    then have "holds ?Q (and_then (with_events (snd w1 @ [Call_on_open])
        (invoke (on_open (get_handler env)) ((fst w1)\<lparr>m_state := OPEN\<rparr>)))
        (\<lambda>w2. Normal (fst w2, snd w2 @ [Handle_read_frame])))"
      by (rule holds_and_then) simp_all
    then show "holds ?Q
      (if status_code (m_response (fst w1)) \<noteq> SWITCHING_PROTOCOLS
       then
         (if m_version (fst w1) = - 1 then Normal (terminate True w1)
          else Normal (terminate True (fst w1, snd w1 @ [Elog])))
       else
         and_then
           (with_events (snd w1 @ [Call_on_open])
              (invoke (on_open (get_handler env)) ((fst w1)\<lparr>m_state := OPEN\<rparr>)))
           (\<lambda>w2. Normal (fst w2, snd w2 @ [Handle_read_frame])))"
      using w by (simp add: terminate_def w1 negotiation_def)
  next
    fix w1 :: world assume "fst w1 = fst w"
    with w show "?Q w1" by simp
  qed
  with False show ?thesis by (simp add: handle_write_response_def)
qed

lemma handshake_negotiation:
  assumes validate: "\<And>c0. negotiation c0 = n \<Longrightarrow>
      surely (\<lambda>c'. negotiation c' = n) (invoke (validate (get_handler env)) c0)"
    and http: "\<And>c0. negotiation c0 = n \<Longrightarrow>
      surely (\<lambda>c'. negotiation c' = n) (invoke (http (get_handler env)) c0)"
    and on_open: "\<And>c0. negotiation c0 = n \<Longrightarrow>
      surely (\<lambda>c'. negotiation c' = n) (invoke (on_open (get_handler env)) c0)"
    and w: "negotiation (fst w) = n"
  shows "holds (\<lambda>w'. negotiation (fst w') = n) (handshake env read_error buf write_error w)"
proof (cases read_error)
  case True
  with handle_read_request_negotiation [OF validate http w, of True buf]
  show ?thesis by (simp add: handshake_def)
next
  case False
  let ?Q = "\<lambda>w'. negotiation (fst w') = n"
  have "holds ?Q (and_then (handle_read_request env False buf w)
      (handle_write_response env write_error))"
  proof (rule holds_and_then [OF handle_read_request_negotiation [OF validate http w]])
    fix x :: world assume "?Q x"
    then show "holds ?Q (handle_write_response env write_error x)"
      by (intro handle_write_response_negotiation on_open)
  qed simp
  with False show ?thesis by (simp add: handshake_def)
qed

text \<open>The setters read the offered values and the value passed, never the state.\<close>

lemma setters_ignore_state:
  "select_subprotocol v (c\<lparr>m_state := s\<rparr>) =
     map_result (\<lambda>c'. c'\<lparr>m_state := s\<rparr>) (select_subprotocol v c)"
  "select_extension v (c\<lparr>m_state := s\<rparr>) =
     map_result (\<lambda>c'. c'\<lparr>m_state := s\<rparr>) (select_extension v c)"
  by (simp_all add: select_subprotocol_def select_extension_def Let_def)

text \<open>C8. The negotiated subprotocol and the accepted extensions are written by
  \<^verbatim>\<open>select_subprotocol\<close> and \<^verbatim>\<open>select_extension\<close> only: every other public member
  function leaves both as they are, and so does the whole handshake when the handler's
  hooks call neither setter. Nothing in the file writes the two lists of offered values
  (lines 343 and 344), so on every connection the code produces they are as the constructor
  left them, empty: \<open>nothing_offered\<close> holds of the new connection and is kept by every
  public member function and by the handshake, whatever the handler does. On such a
  connection no call, the setters included, changes either field, in any state and so
  in OPEN and CLOSED.\<close>

theorem negotiation_written_by_setters_only:
  "((\<forall>c0. \<not> list_ex selects (validate (get_handler env) c0)
         \<and> \<not> list_ex selects (http (get_handler env) c0)
         \<and> \<not> list_ex selects (on_open (get_handler env) c0)) \<longrightarrow>
      holds (\<lambda>w'. m_subprotocol (fst w') = m_subprotocol c \<and> m_extensions (fst w') = m_extensions c)
        (handshake env read_error buf write_error (c, tr)))
   \<and> (\<not> selects a \<longrightarrow>
        surely (\<lambda>c'. m_subprotocol c' = m_subprotocol c \<and> m_extensions c' = m_extensions c)
          (call a c))
   \<and> nothing_offered new_connection
   \<and> (nothing_offered c \<longrightarrow>
        surely (\<lambda>c'. nothing_offered c' \<and> m_subprotocol c' = m_subprotocol c
                  \<and> m_extensions c' = m_extensions c) (call a c))
   \<and> (nothing_offered c \<longrightarrow>
        holds (\<lambda>w'. nothing_offered (fst w') \<and> m_subprotocol (fst w') = m_subprotocol c
                  \<and> m_extensions (fst w') = m_extensions c)
          (handshake env read_error buf write_error (c, tr)))"
proof (intro conjI impI)
  assume quiet: "\<forall>c0. \<not> list_ex selects (validate (get_handler env) c0)
         \<and> \<not> list_ex selects (http (get_handler env) c0)
         \<and> \<not> list_ex selects (on_open (get_handler env) c0)"
  have "holds (\<lambda>w'. negotiation (fst w') = negotiation c)
      (handshake env read_error buf write_error (c, tr))"
    by (rule handshake_negotiation) (use quiet in \<open>simp_all add: invoke_keeps_negotiation\<close>)
  then show "holds (\<lambda>w'. m_subprotocol (fst w') = m_subprotocol c
        \<and> m_extensions (fst w') = m_extensions c)
      (handshake env read_error buf write_error (c, tr))"
    by (rule holds_mono) (simp add: negotiation_def)
next
  assume "\<not> selects a"
  from call_keeps_negotiation [OF this, of c]
  show "surely (\<lambda>c'. m_subprotocol c' = m_subprotocol c \<and> m_extensions c' = m_extensions c)
      (call a c)"
    by (rule surely_mono) (simp add: negotiation_def)
next
  show "nothing_offered new_connection"
    by (simp add: nothing_offered_def negotiation_def new_connection_def)
next
  assume c: "nothing_offered c"
  from call_nothing_offered [OF this, of a]
  show "surely (\<lambda>c'. nothing_offered c' \<and> m_subprotocol c' = m_subprotocol c
        \<and> m_extensions c' = m_extensions c) (call a c)"
    by (rule surely_mono) (use c in \<open>simp add: nothing_offered_def negotiation_def\<close>)
next
  assume c: "nothing_offered c"
  then have n: "negotiation (fst (c, tr)) = ([], [], [], [])"
    by (simp add: nothing_offered_def)
  have "holds (\<lambda>w'. negotiation (fst w') = ([], [], [], []))
      (handshake env read_error buf write_error (c, tr))"
    by (rule handshake_negotiation [OF _ _ _ n]) (simp_all add: invoke_nothing_offered)
  then show "holds (\<lambda>w'. nothing_offered (fst w') \<and> m_subprotocol (fst w') = m_subprotocol c
        \<and> m_extensions (fst w') = m_extensions c)
      (handshake env read_error buf write_error (c, tr))"
    by (rule holds_mono) (use c in \<open>simp add: nothing_offered_def negotiation_def\<close>)
qed

text \<open>The theorem on new connections in the states OPEN and CLOSED, and on a handshake whose
  handler calls both setters.\<close>

theorem negotiation_written_by_setters_only_witness:
  "nothing_offered (new_connection\<lparr>m_state := OPEN\<rparr>)
   \<and> surely (\<lambda>c'. nothing_offered c' \<and> m_subprotocol c' = [] \<and> m_extensions c' = [])
       (call (Select_subprotocol ''chat'') (new_connection\<lparr>m_state := OPEN\<rparr>))
   \<and> surely (\<lambda>c'. nothing_offered c' \<and> m_subprotocol c' = [] \<and> m_extensions c' = [])
       (call (Select_extension ''deflate'') (new_connection\<lparr>m_state := CLOSED\<rparr>))
   \<and> map_option negotiation (final_connection (handshake
       ((sample_env (sample_request ''websocket'' ''13'' ''example.com'' ''/chat''))
          \<lparr>get_handler := \<lparr>validate = (\<lambda>c. [Select_subprotocol [], Add_response_header ''X'' ''y'']),
                            http = (\<lambda>c. []),
                            on_open = (\<lambda>c. [Select_extension ''deflate''])\<rparr>\<rparr>)
       False ''GET /chat'' False (new_connection, []))) = Some ([], [], [], [])"
proof -
  let ?h = "\<lparr>validate = (\<lambda>c. [Select_subprotocol [], Add_response_header ''X'' ''y'']),
      http = (\<lambda>c. []), on_open = (\<lambda>c. [Select_extension ''deflate''])\<rparr>"
  let ?env = "(sample_env (sample_request ''websocket'' ''13'' ''example.com'' ''/chat''))
      \<lparr>get_handler := ?h\<rparr>"
  let ?r = "handshake ?env False ''GET /chat'' False (new_connection, [])"
  have new: "nothing_offered new_connection"
    using negotiation_written_by_setters_only by blast
  then have "open": "nothing_offered (new_connection\<lparr>m_state := OPEN\<rparr>)"
    and closed: "nothing_offered (new_connection\<lparr>m_state := CLOSED\<rparr>)"
    by (simp_all add: nothing_offered_def negotiation_def)
  have fields: "m_subprotocol new_connection = []" "m_extensions new_connection = []"
    by (simp_all add: new_connection_def)
  from negotiation_written_by_setters_only [where c = "new_connection\<lparr>m_state := OPEN\<rparr>"
      and a = "Select_subprotocol ''chat''"] "open" fields
  have first: "surely (\<lambda>c'. nothing_offered c' \<and> m_subprotocol c' = [] \<and> m_extensions c' = [])
      (call (Select_subprotocol ''chat'') (new_connection\<lparr>m_state := OPEN\<rparr>))"
    by simp
  from negotiation_written_by_setters_only [where c = "new_connection\<lparr>m_state := CLOSED\<rparr>"
      and a = "Select_extension ''deflate''"] closed fields
  have second: "surely (\<lambda>c'. nothing_offered c' \<and> m_subprotocol c' = [] \<and> m_extensions c' = [])
      (call (Select_extension ''deflate'') (new_connection\<lparr>m_state := CLOSED\<rparr>))"
    by simp
  from negotiation_written_by_setters_only [where c = new_connection and env = ?env
      and read_error = False and buf = "''GET /chat''" and write_error = False and tr = "[]"] new
  have "holds (\<lambda>w'. nothing_offered (fst w') \<and> m_subprotocol (fst w') = m_subprotocol new_connection
      \<and> m_extensions (fst w') = m_extensions new_connection) ?r"
    by blast
  then have "holds (\<lambda>w'. nothing_offered (fst w')) ?r"
    by (rule holds_mono) simp
  moreover have "final_connection ?r \<noteq> None"
    by (simp add: handshake_defs sample_defs response_defs string_defs
        select_subprotocol_def select_extension_def add_response_header_def)
  ultimately have third: "map_option negotiation (final_connection ?r) = Some ([], [], [], [])"
    by (cases ?r) (auto simp add: nothing_offered_def)
  from "open" first second third show ?thesis by simp
qed

end
